theory Spec2Isabelle
  imports Main "HOL-Library.Word" "HOL-Library.AList"
begin

section \<open>The environment of the setup script\<close>

text \<open>
  The setup script (the second document of \<^verbatim>\<open>src/lib/db/schema.ts\<close>, from the
  \<^verbatim>\<open>node:child_process\<close> import on) is a sequence of prompts, shell-outs and console
  lines. Its effects are made explicit: a \<open>world\<close> holds what the operator will type, what
  each external command will answer, the random source, the file system and the trace of
  everything the script has done so far.

  Strings are lists of 8-bit characters, read as the code units U+0000 to U+00FF.
\<close>

datatype js_error =
    Error string        \<comment> \<open>\<^verbatim>\<open>new Error(message)\<close>\<close>
  | ExecError string    \<comment> \<open>the rejection of \<^verbatim>\<open>execAsync\<close>: the command failed\<close>
  | FsError string      \<comment> \<open>the rejection of \<^verbatim>\<open>fs.writeFile\<close>\<close>

datatype exec_result =
    ExecOk string       \<comment> \<open>the command exits with status 0; its captured stdout\<close>
  | ExecFail string     \<comment> \<open>the command cannot be run or exits with another status\<close>

datatype write_result =
    WriteOk
  | WriteFail string "string option"
      \<comment> \<open>the write fails; what is left at the path afterwards (\<open>None\<close>: no file)\<close>

datatype event =
    Log string                    \<comment> \<open>\<^verbatim>\<open>console.log(s)\<close>\<close>
  | LogError string               \<comment> \<open>\<^verbatim>\<open>console.error(s)\<close>\<close>
  | LogErrorWith string js_error  \<comment> \<open>\<^verbatim>\<open>console.error(s, error)\<close>\<close>
  | LogErrorObj js_error          \<comment> \<open>\<^verbatim>\<open>console.error(error)\<close>\<close>
  | Exec string                   \<comment> \<open>\<^verbatim>\<open>execAsync(command)\<close>\<close>
  | Question string               \<comment> \<open>\<^verbatim>\<open>question(query)\<close>\<close>
  | RandomBytes nat               \<comment> \<open>\<^verbatim>\<open>crypto.randomBytes(n)\<close>\<close>
  | WriteFile string string       \<comment> \<open>\<^verbatim>\<open>fs.writeFile(path, data)\<close>\<close>

record world =
  answers :: "string list"              \<comment> \<open>the lines the operator will type, in order\<close>
  execs :: "exec_result list"           \<comment> \<open>the outcome of each external command, in order\<close>
  write_results :: "write_result list"  \<comment> \<open>the outcome of each file write, in order\<close>
  rng :: "nat \<Rightarrow> 8 word"                \<comment> \<open>the byte stream of the secure random source\<close>
  rng_pos :: nat                        \<comment> \<open>how many bytes of it have been drawn\<close>
  platform :: string                    \<comment> \<open>\<^verbatim>\<open>os.platform()\<close>\<close>
  cwd :: string                         \<comment> \<open>\<^verbatim>\<open>process.cwd()\<close>\<close>
  files :: "string \<rightharpoonup> string"            \<comment> \<open>the file system: path to content\<close>
  trace :: "event list"                 \<comment> \<open>what the script has done, oldest first\<close>

text \<open>
  How a piece of the script ends: it returns a value, it throws (an \<^verbatim>\<open>async\<close> function's
  promise rejects), it ends the process with \<^verbatim>\<open>process.exit(code)\<close>, or it waits for ever
  for a line or for a command that never comes.
\<close>

datatype 'a res = Ok 'a | Thrown js_error | Exited nat | Stalled

type_synonym 'a io = "world \<Rightarrow> 'a res \<times> world"

definition io_return :: "'a \<Rightarrow> 'a io" where
  "io_return x w = (Ok x, w)"

definition io_bind :: "'a io \<Rightarrow> ('a \<Rightarrow> 'b io) \<Rightarrow> 'b io" where
  "io_bind m f w =
     (case m w of
        (Ok x, w') \<Rightarrow> f x w'
      | (Thrown e, w') \<Rightarrow> (Thrown e, w')
      | (Exited n, w') \<Rightarrow> (Exited n, w')
      | (Stalled, w') \<Rightarrow> (Stalled, w'))"

definition io_then :: "'a io \<Rightarrow> 'b io \<Rightarrow> 'b io" where
  "io_then m k = io_bind m (\<lambda>_. k)"

text \<open>\<^verbatim>\<open>try { m } catch (error) { h(error) }\<close>: only a throw is caught.\<close>

definition try_catch :: "'a io \<Rightarrow> (js_error \<Rightarrow> 'a io) \<Rightarrow> 'a io" where
  "try_catch m h w =
     (case m w of
        (Thrown e, w') \<Rightarrow> h e w'
      | (r, w') \<Rightarrow> (r, w'))"

definition emit :: "event \<Rightarrow> world \<Rightarrow> world" where
  "emit ev w = w\<lparr>trace := trace w @ [ev]\<rparr>"

definition console_log :: "string \<Rightarrow> unit io" where
  "console_log s w = (Ok (), emit (Log s) w)"

definition console_error :: "string \<Rightarrow> unit io" where
  "console_error s w = (Ok (), emit (LogError s) w)"

definition console_error_with :: "string \<Rightarrow> js_error \<Rightarrow> unit io" where
  "console_error_with s e w = (Ok (), emit (LogErrorWith s e) w)"

definition process_exit :: "nat \<Rightarrow> 'a io" where
  "process_exit code w = (Exited code, w)"

definition throw :: "js_error \<Rightarrow> 'a io" where
  "throw e w = (Thrown e, w)"

definition execAsync :: "string \<Rightarrow> string io" where
  "execAsync command w =
     (case execs w of
        [] \<Rightarrow> (Stalled, emit (Exec command) w)
      | ExecOk stdout # rest \<Rightarrow> (Ok stdout, emit (Exec command) (w\<lparr>execs := rest\<rparr>))
      | ExecFail msg # rest \<Rightarrow> (Thrown (ExecError msg), emit (Exec command) (w\<lparr>execs := rest\<rparr>)))"

definition question :: "string \<Rightarrow> string io" where
  "question query w =
     (case answers w of
        [] \<Rightarrow> (Stalled, emit (Question query) w)
      | ans # rest \<Rightarrow> (Ok ans, emit (Question query) (w\<lparr>answers := rest\<rparr>)))"

definition randomBytes :: "nat \<Rightarrow> 8 word list io" where
  "randomBytes n w =
     (Ok (map (rng w) [rng_pos w ..< rng_pos w + n]),
      emit (RandomBytes n) (w\<lparr>rng_pos := rng_pos w + n\<rparr>))"

definition fs_writeFile :: "string \<Rightarrow> string \<Rightarrow> unit io" where
  "fs_writeFile p data w =
     (case write_results w of
        [] \<Rightarrow> (Stalled, emit (WriteFile p data) w)
      | WriteOk # rest \<Rightarrow>
          (Ok (), emit (WriteFile p data) (w\<lparr>write_results := rest, files := (files w)(p \<mapsto> data)\<rparr>))
      | WriteFail msg left # rest \<Rightarrow>
          (Thrown (FsError msg),
           emit (WriteFile p data) (w\<lparr>write_results := rest, files := (files w)(p := left)\<rparr>)))"

section \<open>String operations of the language\<close>

text \<open>\<^verbatim>\<open>String.prototype.toLowerCase\<close> on the code units U+0000 to U+00FF.\<close>

definition toLowerChar :: "char \<Rightarrow> char" where
  "toLowerChar c =
     (let n = (of_char c :: nat) in
      if (65 \<le> n \<and> n \<le> 90) \<or> (192 \<le> n \<and> n \<le> 222 \<and> n \<noteq> 215)
      then char_of (n + 32) else c)"

definition toLowerCase :: "string \<Rightarrow> string" where
  "toLowerCase s = map toLowerChar s"

text \<open>
  \<^verbatim>\<open>String.prototype.trim\<close>: white space and line terminators are removed at both ends
  (tab, line feed, vertical tab, form feed, carriage return, space, no-break space).
\<close>

definition is_space :: "char \<Rightarrow> bool" where
  "is_space c = ((of_char c :: nat) \<in> {9, 10, 11, 12, 13, 32, 160})"

definition trim :: "string \<Rightarrow> string" where
  "trim s = rev (dropWhile is_space (rev (dropWhile is_space s)))"

text \<open>The character class \<^verbatim>\<open>[a-zA-Z0-9]\<close>.\<close>

definition is_alnum :: "char \<Rightarrow> bool" where
  "is_alnum c =
     (let n = (of_char c :: nat) in
      (97 \<le> n \<and> n \<le> 122) \<or> (65 \<le> n \<and> n \<le> 90) \<or> (48 \<le> n \<and> n \<le> 57))"

text \<open>
  \<^verbatim>\<open>stdout.match(/whsec_[a-zA-Z0-9]+/)\<close>: the leftmost position where the pattern matches,
  the class repeated greedily; \<open>None\<close> is the \<^verbatim>\<open>null\<close> of no match, \<open>Some m\<close> is
  \<^verbatim>\<open>match[0]\<close>.
\<close>

definition match_here :: "string \<Rightarrow> string option" where
  "match_here s =
     (if take 6 s = ''whsec_''
      then (let tok = takeWhile is_alnum (drop 6 s)
            in if tok = [] then None else Some (''whsec_'' @ tok))
      else None)"

fun match_whsec :: "string \<Rightarrow> string option" where
  "match_whsec [] = None"
| "match_whsec (c # cs) =
     (case match_here (c # cs) of
        Some m \<Rightarrow> Some m
      | None \<Rightarrow> match_whsec cs)"

text \<open>\<^verbatim>\<open>Buffer.prototype.toString("hex")\<close>: two lowercase digits a byte, high nibble first.\<close>

definition hex_digit :: "nat \<Rightarrow> char" where
  "hex_digit n = ''0123456789abcdef'' ! (n mod 16)"

definition toString_hex :: "8 word list \<Rightarrow> string" where
  "toString_hex bs = concat (map (\<lambda>b. [hex_digit (unat b div 16), hex_digit (unat b mod 16)]) bs)"

text \<open>\<^verbatim>\<open>Array.prototype.join(sep)\<close>.\<close>

definition join :: "string \<Rightarrow> string list \<Rightarrow> string" where
  "join sep xs = (case xs of [] \<Rightarrow> [] | x # rest \<Rightarrow> foldl (\<lambda>acc y. acc @ sep @ y) x rest)"

text \<open>
  \<^verbatim>\<open>path.join(dir, name)\<close> for a normalised absolute directory, as \<^verbatim>\<open>process.cwd()\<close> is,
  and a plain file name.
\<close>

definition path_join :: "string \<Rightarrow> string \<Rightarrow> string" where
  "path_join dir name =
     (if dir = [] then name
      else if last dir = CHR ''/'' then dir @ name
      else dir @ ''/'' @ name)"

section \<open>Objects with string keys\<close>

text \<open>
  A \<^verbatim>\<open>Record<string, string>\<close> is the list of its properties in creation order.
  Assigning to a key that exists changes the value in place, assigning to a new key
  appends (\<^const>\<open>AList.update\<close>).

  \<^verbatim>\<open>Object.entries\<close> lists the keys that are array indices first, in ascending numeric
  order, and then every other key in creation order. An array index is the canonical
  decimal form of an integer from 0 to \<open>2\<^sup>3\<^sup>2 - 2\<close>.
\<close>

type_synonym js_object = "(string \<times> string) list"

definition is_digit :: "char \<Rightarrow> bool" where
  "is_digit c = (let n = (of_char c :: nat) in 48 \<le> n \<and> n \<le> 57)"

definition dec_value :: "string \<Rightarrow> nat" where
  "dec_value s = foldl (\<lambda>acc c. 10 * acc + (of_char c - 48)) 0 s"

definition is_array_index :: "string \<Rightarrow> bool" where
  "is_array_index s =
     (case s of
        [] \<Rightarrow> False
      | c # cs \<Rightarrow>
          list_all is_digit s \<and> (if c = CHR ''0'' then cs = [] else True) \<and>
          dec_value s < 4294967295)"

definition Object_entries :: "js_object \<Rightarrow> (string \<times> string) list" where
  "Object_entries obj =
     sort_key (\<lambda>(k, v). dec_value k) (filter (\<lambda>(k, v). is_array_index k) obj)
     @ filter (\<lambda>(k, v). \<not> is_array_index k) obj"

section \<open>The steps of the script\<close>

definition checkStripeCLI :: "unit io" where
  "checkStripeCLI =
     io_then (console_log ''Step 1: Checking if Stripe CLI is installed and authenticated...'')
     (try_catch
        (io_then (execAsync ''stripe --version'')
        (io_then (console_log ''Stripe CLI is installed.'')
        (try_catch
           (io_then (execAsync ''stripe config --list'')
                    (console_log ''Stripe CLI is authenticated.''))
           (\<lambda>error.
              io_then (console_log ''Stripe CLI is not authenticated or the authentication has expired.'')
              (io_then (console_log ''Please run: stripe login'')
              (io_bind (question ''Have you completed the authentication? (y/n): '') (\<lambda>answer.
              io_then
                (if toLowerCase answer \<noteq> ''y''
                 then io_then (console_log ''Please authenticate with Stripe CLI and run this script again.'')
                              (process_exit 1)
                 else io_return ())
                (try_catch
                   (io_then (execAsync ''stripe config --list'')
                            (console_log ''Stripe CLI authentication confirmed.''))
                   (\<lambda>error.
                      io_then (console_error ''Failed to verify Stripe CLI authentication. Please try again.'')
                              (process_exit 1))))))))))
        (\<lambda>error.
           io_then (console_error ''Stripe CLI is not installed. Please install it and try again.'')
           (io_then (console_log ''To install Stripe CLI, follow these steps:'')
           (io_then (console_log ''1. Visit: https://docs.stripe.com/stripe-cli'')
           (io_then (console_log ''2. Download and install the Stripe CLI for your operating system'')
           (io_then (console_log ''3. After installation, run: stripe login'')
           (io_then (console_log ''After installation and authentication, please run this setup script again.'')
                    (process_exit 1))))))))"

definition checkTursoCLI :: "unit io" where
  "checkTursoCLI =
     io_then (console_log ''Checking if Turso CLI is installed...'')
     (try_catch
        (io_then (execAsync ''turso --version'')
                 (console_log ''Turso CLI is installed.''))
        (\<lambda>error.
           io_then (console_error ''Turso CLI is not installed. Please install it and try again.'')
           (io_then (console_log ''To install Turso CLI, follow these steps:'')
           (io_then (console_log ''1. Visit: https://docs.turso.tech/reference/turso-cli'')
           (io_then (console_log ''2. Follow the installation instructions for your operating system'')
           (io_then (console_log ''After installation, please run this setup script again.'')
                    (process_exit 1)))))))"

record db_info =
  url :: string
  isRemote :: bool
  authToken :: "string option"    \<comment> \<open>\<open>None\<close>: the property is absent (\<^verbatim>\<open>undefined\<close>)\<close>

definition getTursoDatabaseInfo :: "db_info io" where
  "getTursoDatabaseInfo =
     io_then (console_log ''Step 2: Setting up Database'')
     (io_bind (question ''Do you want to use a local SQLite file (L) or a remote Turso database (R)? (L/R): '')
        (\<lambda>dbChoice.
     if toLowerCase dbChoice = ''l''
     then io_return \<lparr>url = ''file:dev.db'', isRemote = False, authToken = None\<rparr>
     else
       io_then checkTursoCLI
       (io_bind (question ''Enter a name for your Turso database: '') (\<lambda>dbName.
        try_catch
          (io_then (console_log (''Creating Turso database: '' @ dbName))
          (io_then (execAsync (''turso db create '' @ dbName))
          (io_then (console_log (''Turso database '' @ [CHR 0x27] @ dbName @ [CHR 0x27] @ '' created successfully.''))
          (io_bind (execAsync (''turso db show '' @ dbName @ '' --url'')) (\<lambda>urlOutput.
          (let url = trim urlOutput in
           io_bind (question ''Enter your Turso authentication token: '') (\<lambda>authToken.
           io_return \<lparr>url = url, isRemote = True, authToken = Some authToken\<rparr>)))))))
          (\<lambda>error.
             io_then (console_error_with ''Failed to create Turso database:'' error)
                     (process_exit 1))))))"

definition getStripeSecretKey :: "string io" where
  "getStripeSecretKey =
     io_then (console_log ''Step 3: Getting Stripe Secret Key'')
     (io_then (console_log ''You can find your Stripe Secret Key at: https://dashboard.stripe.com/test/apikeys'')
              (question ''Enter your Stripe Secret Key: ''))"

definition createStripeWebhook :: "string io" where
  "createStripeWebhook =
     io_then (console_log ''Step 4: Creating Stripe webhook...'')
     (try_catch
        (io_bind (execAsync ''stripe listen --print-secret'') (\<lambda>stdout.
         case match_whsec stdout of
           None \<Rightarrow> throw (Error ''Failed to extract Stripe webhook secret'')
         | Some m \<Rightarrow> io_then (console_log ''Stripe webhook created.'') (io_return m)))
        (\<lambda>error.
           io_then (console_error ''Failed to create Stripe webhook. Check your Stripe CLI installation and permissions.'')
           (io_then
              (\<lambda>w. if platform w = ''win32''
                    then console_log ''Note: On Windows, you may need to run this script as an administrator.'' w
                    else io_return () w)
              (throw error))))"

definition generateAuthSecret :: "string io" where
  "generateAuthSecret =
     io_then (console_log ''Step 5: Generating AUTH_SECRET...'')
     (io_bind (randomBytes 32) (\<lambda>bytes. io_return (toString_hex bytes)))"

definition writeEnvFile :: "js_object \<Rightarrow> unit io" where
  "writeEnvFile envVars =
     io_then (console_log ''Step 6: Writing environment variables to .env'')
     (let envContent = join [CHR 0x0A] (map (\<lambda>(key, value). key @ ''='' @ value) (Object_entries envVars))
      in io_then (\<lambda>w. fs_writeFile (path_join (cwd w) ''.env'') envContent w)
                 (console_log ''.env file created with the necessary variables.''))"

text \<open>
  \<^verbatim>\<open>main\<close>. The source's function returns nothing; the model returns the value that the
  local \<^verbatim>\<open>envVars\<close> has when the function ends, so that it can be observed. The last
  console line starts with a character outside the 8-bit range (U+1F389), given here
  by its four UTF-8 bytes. The body of the source, and so this definition, has no call
  of \<^verbatim>\<open>writeEnvFile\<close>.
\<close>

definition main :: "js_object io" where
  "main =
     io_then checkStripeCLI
     (io_bind getTursoDatabaseInfo (\<lambda>db.
      let TURSO_DATABASE_URL = url db; TURSO_AUTH_TOKEN = authToken db in
      io_bind getStripeSecretKey (\<lambda>STRIPE_SECRET_KEY.
      io_bind createStripeWebhook (\<lambda>STRIPE_WEBHOOK_SECRET.
      let BASE_URL = ''http://localhost:3000'' in
      io_bind generateAuthSecret (\<lambda>AUTH_SECRET.
      let envVars =
            [(''TURSO_DATABASE_URL'', TURSO_DATABASE_URL),
             (''STRIPE_SECRET_KEY'', STRIPE_SECRET_KEY),
             (''STRIPE_WEBHOOK_SECRET'', STRIPE_WEBHOOK_SECRET),
             (''BASE_URL'', BASE_URL),
             (''AUTH_SECRET'', AUTH_SECRET)];
          envVars' =
            (case TURSO_AUTH_TOKEN of
               Some t \<Rightarrow> if isRemote db \<and> t \<noteq> [] then AList.update ''TURSO_AUTH_TOKEN'' t envVars else envVars
             | None \<Rightarrow> envVars)
      in io_then (console_log ([CHR 0xF0, CHR 0x9F, CHR 0x8E, CHR 0x89] @ '' Setup completed successfully!''))
                 (io_return envVars'))))))"

text \<open>
  The last line of the file, \<^verbatim>\<open>main().catch(console.error)\<close>, and the end of the
  process: the exit status, or \<open>None\<close> when the process never ends. A rejection of
  \<^verbatim>\<open>main()\<close> is handled by the \<^verbatim>\<open>catch\<close>, which prints the error; nothing sets an exit
  code, so the process then ends with status 0.
\<close>

definition script :: "world \<Rightarrow> nat option \<times> world" where
  "script w =
     (case main w of
        (Ok envVars, w') \<Rightarrow> (Some 0, w')
      | (Thrown e, w') \<Rightarrow> (Some 0, emit (LogErrorObj e) w')
      | (Exited code, w') \<Rightarrow> (Some code, w')
      | (Stalled, w') \<Rightarrow> (None, w'))"

section \<open>What the claims speak of\<close>

text \<open>The auth probe is the command \<^verbatim>\<open>stripe config --list\<close>; how often it has been run.\<close>

definition auth_probes :: "world \<Rightarrow> nat" where
  "auth_probes w = count_list (trace w) (Exec ''stripe config --list'')"

text \<open>
  A piece of the script keeps a relation between worlds when the world it leaves is
  related to the world it started in, however it ends.
\<close>

definition keeps :: "(world \<Rightarrow> world \<Rightarrow> bool) \<Rightarrow> 'a io \<Rightarrow> bool" where
  "keeps R m = (\<forall>w. R w (snd (m w)))"

definition same :: "(world \<Rightarrow> 'b) \<Rightarrow> world \<Rightarrow> world \<Rightarrow> bool" where
  "same obs w w' = (obs w' = obs w)"

definition trace_extended :: "world \<Rightarrow> world \<Rightarrow> bool" where
  "trace_extended w w' = (\<exists>evs. trace w' = trace w @ evs)"

text \<open>
  The specification's words for the webhook output: it contains a substring that is
  \<^verbatim>\<open>whsec_\<close> followed by one or more alphanumeric characters. This definition follows
  the specification, not the source; \<^const>\<open>match_whsec\<close> is the source's.
\<close>

definition spec_has_whsec :: "string \<Rightarrow> bool" where
  "spec_has_whsec s =
     (\<exists>pre tok post. s = pre @ ''whsec_'' @ tok @ post \<and> tok \<noteq> [] \<and> list_all is_alnum tok)"

text \<open>
  The specification's words for the artifact: \<^verbatim>\<open>KEY=value\<close> lines in the order of the
  mapping, a newline between two lines and none after the last. This definition follows
  the specification, not the source; \<^const>\<open>writeEnvFile\<close> is the source's.
\<close>

fun spec_env_lines :: "(string \<times> string) list \<Rightarrow> string" where
  "spec_env_lines [] = []"
| "spec_env_lines [(k, v)] = k @ ''='' @ v"
| "spec_env_lines ((k, v) # p # ps) = k @ ''='' @ v @ [CHR 0x0A] @ spec_env_lines (p # ps)"

section \<open>Sample worlds\<close>

text \<open>
  A world for concrete runs: a Linux machine, an empty file system, a random source that
  counts up from 0, and a disk that accepts one write. \<open>scripted\<close> adds the operator's
  answers and the outcomes of the external commands.
\<close>

definition world0 :: world where
  "world0 =
     \<lparr>answers = [], execs = [], write_results = [WriteOk], rng = (\<lambda>i. word_of_nat i), rng_pos = 0,
      platform = ''linux'', cwd = ''/home/dev/app'', files = Map.empty, trace = []\<rparr>"

definition scripted :: "string list \<Rightarrow> exec_result list \<Rightarrow> world" where
  "scripted as es = world0\<lparr>answers := as, execs := es\<rparr>"


section \<open>Running the model\<close>

text \<open>
  Unfolding these runs a step on a given world; the second and third collections also
  evaluate the string operations and the sample worlds.
\<close>

lemmas io_defs = io_return_def io_bind_def io_then_def try_catch_def emit_def console_log_def
  console_error_def console_error_with_def process_exit_def throw_def execAsync_def question_def
  randomBytes_def fs_writeFile_def

lemmas eval_defs = scripted_def world0_def toLowerCase_def toLowerChar_def char_of_def
  bit_Suc_0_iff match_here_def is_alnum_def is_space_def trim_def

lemmas run_defs = main_def checkStripeCLI_def checkTursoCLI_def getTursoDatabaseInfo_def
  getStripeSecretKey_def createStripeWebhook_def generateAuthSecret_def io_defs eval_defs

lemma answers_emit: "answers (emit ev w) = answers w"
  and execs_emit: "execs (emit ev w) = execs w"
  and write_results_emit: "write_results (emit ev w) = write_results w"
  and rng_emit: "rng (emit ev w) = rng w"
  and rng_pos_emit: "rng_pos (emit ev w) = rng_pos w"
  and platform_emit: "platform (emit ev w) = platform w"
  and cwd_emit: "cwd (emit ev w) = cwd w"
  and files_emit: "files (emit ev w) = files w"
  and trace_emit: "trace (emit ev w) = trace w @ [ev]"
  by (simp_all add: emit_def)

lemmas emit_sels = answers_emit execs_emit write_results_emit rng_emit rng_pos_emit
  platform_emit cwd_emit files_emit

section \<open>What every step leaves alone\<close>

text \<open>
  Rules to show, step by step along the text of a function, that it keeps a relation:
  the files, the number of auth probes, or that the trace only grows.
\<close>

lemma keepsD: "keeps R m \<Longrightarrow> R w (snd (m w))"
  by (simp add: keeps_def)

lemma reflp_same: "reflp (same obs)"
  and transp_same: "transp (same obs)"
  by (auto simp add: reflp_def transp_def same_def)

lemma reflp_trace_extended: "reflp trace_extended"
  by (simp add: reflp_def trace_extended_def)

lemma transp_trace_extended: "transp trace_extended"
proof (rule transpI)
  fix x y z
  assume "trace_extended x y" and "trace_extended y z"
  then obtain e1 e2 where "trace y = trace x @ e1" and "trace z = trace y @ e2"
    by (auto simp add: trace_extended_def)
  then have "trace z = trace x @ (e1 @ e2)" by simp
  then show "trace_extended x z" unfolding trace_extended_def by blast
qed

lemma keeps_return: "reflp R \<Longrightarrow> keeps R (io_return x)"
  and keeps_exit: "reflp R \<Longrightarrow> keeps R (process_exit n)"
  and keeps_throw: "reflp R \<Longrightarrow> keeps R (throw e)"
  by (simp_all add: keeps_def io_return_def process_exit_def throw_def reflpD)

lemma keeps_bind:
  assumes "transp R" and "keeps R m" and "\<And>x. keeps R (f x)"
  shows "keeps R (io_bind m f)"
proof -
  have "R w (snd (io_bind m f w))" for w
  proof (cases "m w")
    case (Pair r w')
    have 1: "R w w'" using keepsD [OF assms(2), of w] Pair by simp
    show ?thesis
    proof (cases r)
      case (Ok x)
      have "R w' (snd (f x w'))" using assms(3) by (rule keepsD)
      with 1 have "R w (snd (f x w'))" using assms(1) by (meson transpD)
      then show ?thesis using Pair Ok by (simp add: io_bind_def)
    qed (use 1 Pair in \<open>simp_all add: io_bind_def\<close>)
  qed
  then show ?thesis by (simp add: keeps_def)
qed

lemma keeps_then:
  "transp R \<Longrightarrow> keeps R m \<Longrightarrow> keeps R k \<Longrightarrow> keeps R (io_then m k)"
  by (simp add: io_then_def keeps_bind)

lemma keeps_try:
  assumes "transp R" and "keeps R m" and "\<And>e. keeps R (h e)"
  shows "keeps R (try_catch m h)"
proof -
  have "R w (snd (try_catch m h w))" for w
  proof (cases "m w")
    case (Pair r w')
    have 1: "R w w'" using keepsD [OF assms(2), of w] Pair by simp
    show ?thesis
    proof (cases r)
      case (Thrown e)
      have "R w' (snd (h e w'))" using assms(3) by (rule keepsD)
      with 1 have "R w (snd (h e w'))" using assms(1) by (meson transpD)
      then show ?thesis using Pair Thrown by (simp add: try_catch_def)
    qed (use 1 Pair in \<open>simp_all add: try_catch_def\<close>)
  qed
  then show ?thesis by (simp add: keeps_def)
qed

lemma keeps_if:
  "keeps R m \<Longrightarrow> keeps R k \<Longrightarrow> keeps R (if b then m else k)"
  by simp

lemma keeps_platform:
  "keeps R m \<Longrightarrow> keeps R k \<Longrightarrow> keeps R (\<lambda>w. if platform w = p then m w else k w)"
  by (simp add: keeps_def)

lemma keeps_option:
  "keeps R m \<Longrightarrow> (\<And>x. keeps R (f x)) \<Longrightarrow>
   keeps R (case v of None \<Rightarrow> m | Some x \<Rightarrow> f x)"
  by (cases v) simp_all

lemmas keeps_intros = keeps_return keeps_exit keeps_throw keeps_bind
  keeps_then keeps_try keeps_if keeps_platform keeps_option
  reflp_same transp_same reflp_trace_extended transp_trace_extended

lemma same_files_log: "keeps (same files) (console_log s)"
  and same_files_error: "keeps (same files) (console_error s)"
  and same_files_error_with: "keeps (same files) (console_error_with s e)"
  and same_files_exec: "keeps (same files) (execAsync c)"
  and same_files_question: "keeps (same files) (question q)"
  and same_files_random: "keeps (same files) (randomBytes n)"
  by (simp_all add: keeps_def same_def io_defs split: list.splits exec_result.splits)

lemmas same_files_prims = same_files_log same_files_error same_files_error_with
  same_files_exec same_files_question same_files_random

lemma extended_log: "keeps trace_extended (console_log s)"
  and extended_error: "keeps trace_extended (console_error s)"
  and extended_error_with: "keeps trace_extended (console_error_with s e)"
  and extended_exec: "keeps trace_extended (execAsync c)"
  and extended_question: "keeps trace_extended (question q)"
  and extended_random: "keeps trace_extended (randomBytes n)"
  by (simp_all add: keeps_def trace_extended_def io_defs split: list.splits exec_result.splits)

lemmas extended_prims = extended_log extended_error extended_error_with
  extended_exec extended_question extended_random

lemma same_probes_log: "keeps (same auth_probes) (console_log s)"
  and same_probes_error: "keeps (same auth_probes) (console_error s)"
  and same_probes_error_with: "keeps (same auth_probes) (console_error_with s e)"
  and same_probes_question: "keeps (same auth_probes) (question q)"
  and same_probes_random: "keeps (same auth_probes) (randomBytes n)"
  by (simp_all add: keeps_def same_def auth_probes_def io_defs split: list.splits)

lemma same_probes_exec:
  "c \<noteq> ''stripe config --list'' \<Longrightarrow> keeps (same auth_probes) (execAsync c)"
  by (simp add: keeps_def same_def auth_probes_def io_defs split: list.splits exec_result.splits)

lemmas same_probes_prims = same_probes_log same_probes_error same_probes_error_with
  same_probes_question same_probes_random same_probes_exec

subsection \<open>No step of main writes a file\<close>

lemma same_files_checkStripeCLI: "keeps (same files) checkStripeCLI"
  unfolding checkStripeCLI_def by (intro keeps_intros same_files_prims)

lemma same_files_checkTursoCLI: "keeps (same files) checkTursoCLI"
  unfolding checkTursoCLI_def by (intro keeps_intros same_files_prims)

lemma same_files_getTursoDatabaseInfo: "keeps (same files) getTursoDatabaseInfo"
  unfolding getTursoDatabaseInfo_def Let_def
  by (intro keeps_intros same_files_prims same_files_checkTursoCLI)

lemma same_files_getStripeSecretKey: "keeps (same files) getStripeSecretKey"
  unfolding getStripeSecretKey_def by (intro keeps_intros same_files_prims)

lemma same_files_createStripeWebhook: "keeps (same files) createStripeWebhook"
  unfolding createStripeWebhook_def by (intro keeps_intros same_files_prims)

lemma same_files_generateAuthSecret: "keeps (same files) generateAuthSecret"
  unfolding generateAuthSecret_def by (intro keeps_intros same_files_prims)

lemma same_files_main: "keeps (same files) main"
  unfolding main_def Let_def
  by (intro keeps_intros same_files_prims same_files_checkStripeCLI
      same_files_getTursoDatabaseInfo same_files_getStripeSecretKey
      same_files_createStripeWebhook same_files_generateAuthSecret)

lemma script_files: "files (snd (script w)) = files w"
proof (cases "main w")
  case (Pair r w')
  have "files w' = files w" using keepsD [OF same_files_main, of w] Pair by (simp add: same_def)
  then show ?thesis using Pair by (cases r) (simp_all add: script_def emit_def)
qed

subsection \<open>Only the preflight check runs the auth probe\<close>

lemma same_probes_checkTursoCLI: "keeps (same auth_probes) checkTursoCLI"
  unfolding checkTursoCLI_def by (intro keeps_intros same_probes_prims) simp

lemma same_probes_getTursoDatabaseInfo: "keeps (same auth_probes) getTursoDatabaseInfo"
  unfolding getTursoDatabaseInfo_def Let_def
  by (intro keeps_intros same_probes_prims same_probes_checkTursoCLI) simp_all

lemma same_probes_getStripeSecretKey: "keeps (same auth_probes) getStripeSecretKey"
  unfolding getStripeSecretKey_def by (intro keeps_intros same_probes_prims)

lemma same_probes_createStripeWebhook: "keeps (same auth_probes) createStripeWebhook"
  unfolding createStripeWebhook_def by (intro keeps_intros same_probes_prims) simp

lemma same_probes_generateAuthSecret: "keeps (same auth_probes) generateAuthSecret"
  unfolding generateAuthSecret_def by (intro keeps_intros same_probes_prims)

lemma then_kept:
  assumes "keeps (same obs) k"
  shows "obs (snd (io_then m k w)) = obs (snd (m w))"
proof (cases "m w")
  case (Pair r w')
  then show ?thesis using keepsD [OF assms, of w']
    by (cases r) (simp_all add: io_then_def io_bind_def same_def)
qed

lemma main_probes: "auth_probes (snd (main w)) = auth_probes (snd (checkStripeCLI w))"
  unfolding main_def Let_def
  by (rule then_kept)
     (intro keeps_intros same_probes_prims same_probes_getTursoDatabaseInfo
        same_probes_getStripeSecretKey same_probes_createStripeWebhook
        same_probes_generateAuthSecret)

lemma script_probes: "auth_probes (snd (script w)) = auth_probes (snd (checkStripeCLI w))"
proof (cases "main w")
  case (Pair r w')
  then have "auth_probes w' = auth_probes (snd (checkStripeCLI w))"
    using main_probes [of w] by simp
  then show ?thesis using Pair
    by (cases r) (simp_all add: script_def emit_def auth_probes_def)
qed

lemma checkStripeCLI_probes_le: "auth_probes (snd (checkStripeCLI w)) \<le> auth_probes w + 2"
proof (cases "execs w")
  case Nil
  then show ?thesis by (simp add: checkStripeCLI_def io_defs auth_probes_def)
next
  case c1: (Cons r1 rs1)
  show ?thesis
  proof (cases r1)
    case (ExecFail m)
    with c1 show ?thesis by (simp add: checkStripeCLI_def io_defs auth_probes_def)
  next
    case ok1: (ExecOk v)
    show ?thesis
    proof (cases rs1)
      case Nil
      with c1 ok1 show ?thesis by (simp add: checkStripeCLI_def io_defs auth_probes_def)
    next
      case c2: (Cons r2 rs2)
      show ?thesis
      proof (cases r2)
        case (ExecOk v2)
        with c1 ok1 c2 show ?thesis by (simp add: checkStripeCLI_def io_defs auth_probes_def)
      next
        case f2: (ExecFail m2)
        show ?thesis
        proof (cases "answers w")
          case Nil
          with c1 ok1 c2 f2 show ?thesis by (simp add: checkStripeCLI_def io_defs auth_probes_def)
        next
          case a: (Cons a as)
          show ?thesis
          proof (cases "toLowerCase a = ''y''")
            case False
            with c1 ok1 c2 f2 a show ?thesis
              by (simp add: checkStripeCLI_def io_defs auth_probes_def)
          next
            case True
            with c1 ok1 c2 f2 a show ?thesis
              by (cases rs2; cases "hd rs2")
                 (simp_all add: checkStripeCLI_def io_defs auth_probes_def)
          qed
        qed
      qed
    qed
  qed
qed

lemma main_exit: "fst (checkStripeCLI w) = Exited n \<Longrightarrow> fst (script w) = Some n"
  by (cases "checkStripeCLI w") (simp add: script_def main_def io_then_def io_bind_def)

section \<open>When a step returns and when it throws\<close>

lemma bind_Ok:
  "(io_bind m f w = (Ok y, w'')) = (\<exists>x w'. m w = (Ok x, w') \<and> f x w' = (Ok y, w''))"
proof (cases "m w")
  case (Pair r w')
  then show ?thesis by (cases r) (simp_all add: io_bind_def)
qed

lemma bind_Thrown:
  "(io_bind m f w = (Thrown e, w'')) =
     (m w = (Thrown e, w'') \<or> (\<exists>x w'. m w = (Ok x, w') \<and> f x w' = (Thrown e, w'')))"
proof (cases "m w")
  case (Pair r w')
  then show ?thesis by (cases r) (auto simp add: io_bind_def)
qed

lemma then_Ok:
  "(io_then m k w = (Ok y, w'')) = (\<exists>x w'. m w = (Ok x, w') \<and> k w' = (Ok y, w''))"
  by (simp add: io_then_def bind_Ok)

lemma then_Thrown:
  "(io_then m k w = (Thrown e, w'')) =
     (m w = (Thrown e, w'') \<or> (\<exists>x w'. m w = (Ok x, w') \<and> k w' = (Thrown e, w'')))"
  by (simp add: io_then_def bind_Thrown)

lemma try_Ok:
  "(try_catch m h w = (Ok y, w'')) =
     (m w = (Ok y, w'') \<or> (\<exists>e w'. m w = (Thrown e, w') \<and> h e w' = (Ok y, w'')))"
proof (cases "m w")
  case (Pair r w')
  then show ?thesis by (cases r) (auto simp add: try_catch_def)
qed

lemma return_Ok: "(io_return x w = (Ok y, w')) = (y = x \<and> w' = w)"
  by (auto simp add: io_return_def)

lemma exit_Ok: "(process_exit n w = (Ok y, w')) = False"
  and exit_Thrown: "(process_exit n w = (Thrown e, w')) = False"
  and throw_Ok: "(throw e w = (Ok y, w')) = False"
  and throw_Thrown: "(throw e w = (Thrown e', w')) = (e' = e \<and> w' = w)"
  and return_Thrown: "(io_return x w = (Thrown e, w')) = False"
  by (auto simp add: process_exit_def throw_def io_return_def)

lemma log_Ok: "(console_log s w = (Ok u, w')) = (w' = emit (Log s) w)"
  and log_Thrown: "(console_log s w = (Thrown e, w')) = False"
  and error_Ok: "(console_error s w = (Ok u, w')) = (w' = emit (LogError s) w)"
  and error_Thrown: "(console_error s w = (Thrown e, w')) = False"
  and error_with_Ok: "(console_error_with s e w = (Ok u, w')) = (w' = emit (LogErrorWith s e) w)"
  by (auto simp add: console_log_def console_error_def console_error_with_def)

lemma question_Ok:
  "(question q w = (Ok a, w')) =
     (\<exists>as. answers w = a # as \<and> w' = emit (Question q) (w\<lparr>answers := as\<rparr>))"
  by (cases "answers w") (auto simp add: question_def)

lemma question_Thrown: "(question q w = (Thrown e, w')) = False"
  by (cases "answers w") (auto simp add: question_def)

lemma exec_Ok:
  "(execAsync c w = (Ok out, w')) =
     (\<exists>rest. execs w = ExecOk out # rest \<and> w' = emit (Exec c) (w\<lparr>execs := rest\<rparr>))"
proof (cases "execs w")
  case Nil
  then show ?thesis by (simp add: execAsync_def)
next
  case (Cons r rest)
  then show ?thesis by (cases r) (auto simp add: execAsync_def)
qed

lemma exec_Thrown:
  "(execAsync c w = (Thrown e, w')) =
     (\<exists>msg rest. execs w = ExecFail msg # rest \<and> e = ExecError msg \<and> w' = emit (Exec c) (w\<lparr>execs := rest\<rparr>))"
proof (cases "execs w")
  case Nil
  then show ?thesis by (simp add: execAsync_def)
next
  case (Cons r rest)
  then show ?thesis by (cases r) (auto simp add: execAsync_def)
qed

lemmas inv_simps = bind_Ok bind_Thrown then_Ok then_Thrown try_Ok return_Ok exit_Ok exit_Thrown
  throw_Ok throw_Thrown return_Thrown log_Ok log_Thrown error_Ok error_Thrown error_with_Ok
  question_Ok question_Thrown exec_Ok exec_Thrown

subsection \<open>The steps that returned\<close>

lemma checkTursoCLI_Ok:
  "checkTursoCLI w = (Ok u, w') \<Longrightarrow> answers w' = answers w"
  by (auto simp add: checkTursoCLI_def inv_simps answers_emit)

lemma getTursoDatabaseInfo_Ok:
  assumes "getTursoDatabaseInfo w = (Ok db, w')"
  shows "\<exists>a as. answers w = a # as \<and>
           (if toLowerCase a = ''l''
            then db = \<lparr>url = ''file:dev.db'', isRemote = False, authToken = None\<rparr> \<and> answers w' = as
            else \<exists>n t r out. as = n # t # r \<and> answers w' = r \<and>
                   db = \<lparr>url = trim out, isRemote = True, authToken = Some t\<rparr>)"
  using assms unfolding getTursoDatabaseInfo_def checkTursoCLI_def
  by (auto simp add: inv_simps emit_sels Let_def split: if_splits) blast

lemma checkStripeCLI_Ok_answers:
  "checkStripeCLI w = (Ok u, w') \<Longrightarrow> set (answers w') \<subseteq> set (answers w)"
  unfolding checkStripeCLI_def
  by (auto simp add: inv_simps emit_sels split: if_splits)

lemma getStripeSecretKey_Ok:
  "getStripeSecretKey w = (Ok key, w') \<Longrightarrow> key \<in> set (answers w)"
  unfolding getStripeSecretKey_def by (auto simp add: inv_simps emit_sels)

lemma createStripeWebhook_Ok:
  "createStripeWebhook w = (Ok wh, w') \<Longrightarrow> \<exists>out. match_whsec out = Some wh"
  unfolding createStripeWebhook_def
  by (auto simp add: inv_simps emit_sels split: option.splits)

lemma getTursoDatabaseInfo_Ok_outputs:
  assumes "getTursoDatabaseInfo w = (Ok db, w')"
  shows "\<exists>a as. answers w = a # as \<and>
           (if toLowerCase a = ''l''
            then db = \<lparr>url = ''file:dev.db'', isRemote = False, authToken = None\<rparr> \<and>
                 answers w' = as \<and> execs w' = execs w
            else \<exists>n t r v c out es.
                   as = n # t # r \<and> answers w' = r \<and>
                   execs w = ExecOk v # ExecOk c # ExecOk out # es \<and> execs w' = es \<and>
                   db = \<lparr>url = trim out, isRemote = True, authToken = Some t\<rparr>)"
  using assms unfolding getTursoDatabaseInfo_def checkTursoCLI_def
  by (auto simp add: inv_simps emit_sels Let_def split: if_splits)

lemma getStripeSecretKey_Ok_answer:
  "getStripeSecretKey w = (Ok key, w') \<Longrightarrow> \<exists>r. answers w = key # r"
  unfolding getStripeSecretKey_def by (auto simp add: inv_simps emit_sels)

lemma main_Ok:
  assumes "main w = (Ok env, w')"
  shows "\<exists>u w1 db w2 key w3 wh w4 sec w5.
           checkStripeCLI w = (Ok u, w1) \<and> getTursoDatabaseInfo w1 = (Ok db, w2) \<and>
           getStripeSecretKey w2 = (Ok key, w3) \<and> createStripeWebhook w3 = (Ok wh, w4) \<and>
           generateAuthSecret w4 = (Ok sec, w5) \<and>
           env = [(''TURSO_DATABASE_URL'', url db), (''STRIPE_SECRET_KEY'', key),
                  (''STRIPE_WEBHOOK_SECRET'', wh), (''BASE_URL'', ''http://localhost:3000''),
                  (''AUTH_SECRET'', sec)]
                 @ (case authToken db of
                      Some t \<Rightarrow> if isRemote db \<and> t \<noteq> [] then [(''TURSO_AUTH_TOKEN'', t)] else []
                    | None \<Rightarrow> [])"
proof -
  have u: "(case authToken db of
              Some t \<Rightarrow>
                if isRemote db \<and> t \<noteq> []
                then AList.update ''TURSO_AUTH_TOKEN'' t
                       [(''TURSO_DATABASE_URL'', url db), (''STRIPE_SECRET_KEY'', key),
                        (''STRIPE_WEBHOOK_SECRET'', wh), (''BASE_URL'', ''http://localhost:3000''),
                        (''AUTH_SECRET'', sec)]
                else [(''TURSO_DATABASE_URL'', url db), (''STRIPE_SECRET_KEY'', key),
                      (''STRIPE_WEBHOOK_SECRET'', wh), (''BASE_URL'', ''http://localhost:3000''),
                      (''AUTH_SECRET'', sec)]
            | None \<Rightarrow>
                [(''TURSO_DATABASE_URL'', url db), (''STRIPE_SECRET_KEY'', key),
                 (''STRIPE_WEBHOOK_SECRET'', wh), (''BASE_URL'', ''http://localhost:3000''),
                 (''AUTH_SECRET'', sec)])
           = [(''TURSO_DATABASE_URL'', url db), (''STRIPE_SECRET_KEY'', key),
              (''STRIPE_WEBHOOK_SECRET'', wh), (''BASE_URL'', ''http://localhost:3000''),
              (''AUTH_SECRET'', sec)]
             @ (case authToken db of
                  Some t \<Rightarrow> if isRemote db \<and> t \<noteq> [] then [(''TURSO_AUTH_TOKEN'', t)] else []
                | None \<Rightarrow> [])"
    for db :: db_info and key wh sec
    by (cases "authToken db") simp_all
  show ?thesis
    using assms unfolding main_def Let_def then_Ok bind_Ok log_Ok return_Ok u
    by blast
qed

subsection \<open>The steps that threw\<close>

lemma createStripeWebhook_no_match:
  assumes "execs w = ExecOk out # rest" and "match_whsec out = None"
  shows "createStripeWebhook w =
     (Thrown (Error ''Failed to extract Stripe webhook secret''),
      w\<lparr>execs := rest,
        trace := trace w @
          [Log ''Step 4: Creating Stripe webhook...'',
           Exec ''stripe listen --print-secret'',
           LogError ''Failed to create Stripe webhook. Check your Stripe CLI installation and permissions.'']
          @ (if platform w = ''win32''
             then [Log ''Note: On Windows, you may need to run this script as an administrator.'']
             else [])\<rparr>)"
  using assms by (simp add: createStripeWebhook_def io_defs)

lemma createStripeWebhook_exec_fail:
  assumes "execs w = ExecFail msg # rest"
  shows "createStripeWebhook w =
     (Thrown (ExecError msg),
      w\<lparr>execs := rest,
        trace := trace w @
          [Log ''Step 4: Creating Stripe webhook...'',
           Exec ''stripe listen --print-secret'',
           LogError ''Failed to create Stripe webhook. Check your Stripe CLI installation and permissions.'']
          @ (if platform w = ''win32''
             then [Log ''Note: On Windows, you may need to run this script as an administrator.'']
             else [])\<rparr>)"
  using assms by (simp add: createStripeWebhook_def io_defs)

lemma main_webhook_throws:
  assumes "checkStripeCLI w = (Ok u, w1)" and "getTursoDatabaseInfo w1 = (Ok db, w2)"
    and "getStripeSecretKey w2 = (Ok key, w3)" and "createStripeWebhook w3 = (Thrown e, w4)"
  shows "main w = (Thrown e, w4)"
  using assms by (simp add: main_def io_then_def io_bind_def Let_def)

lemma script_Thrown: "main w = (Thrown e, w') \<Longrightarrow> script w = (Some 0, emit (LogErrorObj e) w')"
  by (simp add: script_def)

subsection \<open>The first steps of the remote path\<close>

lemma then_log: "io_then (console_log s) k w = k (emit (Log s) w)"
  by (simp add: io_then_def io_bind_def console_log_def)

lemma bind_question_Cons:
  "answers w = a # as \<Longrightarrow> io_bind (question q) f w = f a (emit (Question q) (w\<lparr>answers := as\<rparr>))"
  by (simp add: io_bind_def question_def)

lemma then_extended:
  assumes "keeps trace_extended k"
  shows "\<exists>more. trace (snd (io_then m k w)) = trace (snd (m w)) @ more"
proof (cases "m w")
  case (Pair r w')
  then show ?thesis using keepsD [OF assms, of w']
    by (cases r) (simp_all add: io_then_def io_bind_def trace_extended_def)
qed

lemma checkTursoCLI_first:
  "\<exists>more. trace (snd (checkTursoCLI w)) =
     trace w @ [Log ''Checking if Turso CLI is installed...'', Exec ''turso --version''] @ more"
proof (cases "execs w")
  case Nil
  then show ?thesis by (simp add: checkTursoCLI_def io_defs)
next
  case (Cons r rest)
  then show ?thesis by (cases r) (simp_all add: checkTursoCLI_def io_defs)
qed

lemma checkTursoCLI_then_first:
  assumes "keeps trace_extended k"
  shows "\<exists>more. trace (snd (io_then checkTursoCLI k w)) =
     trace w @ [Log ''Checking if Turso CLI is installed...'', Exec ''turso --version''] @ more"
proof -
  obtain m1 where 1: "trace (snd (io_then checkTursoCLI k w)) = trace (snd (checkTursoCLI w)) @ m1"
    using then_extended [OF assms] by blast
  obtain m2 where 2: "trace (snd (checkTursoCLI w)) =
     trace w @ [Log ''Checking if Turso CLI is installed...'', Exec ''turso --version''] @ m2"
    using checkTursoCLI_first by blast
  have "trace (snd (io_then checkTursoCLI k w)) =
     trace w @ [Log ''Checking if Turso CLI is installed...'', Exec ''turso --version''] @ (m2 @ m1)"
    using 1 2 by simp
  then show ?thesis by blast
qed

lemma getTursoDatabaseInfo_remote_first:
  assumes "answers w = a # as" and "toLowerCase a \<noteq> ''l''"
  shows "\<exists>more. trace (snd (getTursoDatabaseInfo w)) =
     trace w @
       [Log ''Step 2: Setting up Database'',
        Question ''Do you want to use a local SQLite file (L) or a remote Turso database (R)? (L/R): '',
        Log ''Checking if Turso CLI is installed...'',
        Exec ''turso --version''] @ more"
proof -
  let ?w1 = "emit (Question ''Do you want to use a local SQLite file (L) or a remote Turso database (R)? (L/R): '')
               (emit (Log ''Step 2: Setting up Database'') w\<lparr>answers := as\<rparr>)"
  have "\<exists>k. keeps trace_extended k \<and> getTursoDatabaseInfo w = io_then checkTursoCLI k ?w1"
    unfolding getTursoDatabaseInfo_def Let_def using assms
    apply (simp add: then_log bind_question_Cons emit_sels)
    apply (rule exI, rule conjI)
     prefer 2
     apply (rule refl)
    apply (intro keeps_intros extended_prims)
    done
  then obtain k where k: "keeps trace_extended k"
    and g: "getTursoDatabaseInfo w = io_then checkTursoCLI k ?w1" by blast
  from checkTursoCLI_then_first [OF k, of ?w1] show ?thesis
    unfolding g by (simp add: emit_def)
qed

section \<open>The pattern match on the webhook output\<close>

text \<open>
  The source's scan finds a match exactly when the output has a substring of the
  specification's shape, and what it returns is such a substring.
\<close>

lemma match_here_Some:
  assumes "match_here s = Some m"
  shows "\<exists>tok post. s = ''whsec_'' @ tok @ post \<and> m = ''whsec_'' @ tok \<and> tok \<noteq> [] \<and> list_all is_alnum tok"
proof -
  let ?tok = "takeWhile is_alnum (drop 6 s)"
  from assms have p: "take 6 s = ''whsec_''" and t: "?tok \<noteq> []" and m: "m = ''whsec_'' @ ?tok"
    by (auto simp add: match_here_def Let_def split: if_splits)
  have "s = take 6 s @ ?tok @ dropWhile is_alnum (drop 6 s)" by simp
  then have "s = ''whsec_'' @ ?tok @ dropWhile is_alnum (drop 6 s)" using p by metis
  moreover have "list_all is_alnum ?tok" by (simp add: list_all_iff) (meson set_takeWhileD)
  ultimately show ?thesis using t m by blast
qed

lemma match_whsec_Some:
  "match_whsec s = Some m \<Longrightarrow>
   \<exists>pre tok post. s = pre @ ''whsec_'' @ tok @ post \<and> m = ''whsec_'' @ tok \<and> tok \<noteq> [] \<and> list_all is_alnum tok"
proof (induction s)
  case Nil
  then show ?case by simp
next
  case (Cons c cs)
  show ?case
  proof (cases "match_here (c # cs)")
    case (Some m')
    with Cons.prems have "m' = m" by simp
    with Some match_here_Some [of "c # cs" m] show ?thesis
      by (metis append_Nil)
  next
    case None
    with Cons.prems have "match_whsec cs = Some m" by simp
    from Cons.IH [OF this] obtain pre tok post where
      "cs = pre @ ''whsec_'' @ tok @ post" "m = ''whsec_'' @ tok" "tok \<noteq> []" "list_all is_alnum tok"
      by blast
    then have "c # cs = (c # pre) @ ''whsec_'' @ tok @ post" by simp
    then show ?thesis using \<open>m = ''whsec_'' @ tok\<close> \<open>tok \<noteq> []\<close> \<open>list_all is_alnum tok\<close> by blast
  qed
qed

lemma match_here_complete:
  assumes "tok \<noteq> []" and "list_all is_alnum tok"
  shows "match_here (''whsec_'' @ tok @ post) \<noteq> None"
proof -
  from assms obtain t ts where "tok = t # ts" and "is_alnum t"
    by (cases tok) auto
  then show ?thesis by (simp add: match_here_def)
qed

lemma match_whsec_complete:
  assumes "tok \<noteq> []" and "list_all is_alnum tok"
  shows "match_whsec (pre @ ''whsec_'' @ tok @ post) \<noteq> None"
proof (induction pre)
  case Nil
  show ?case using match_here_complete [OF assms, of post]
    by (auto split: option.splits)
next
  case (Cons p pre)
  then show ?case by (auto split: option.splits)
qed

lemma match_whsec_None_iff: "(match_whsec s = None) = (\<not> spec_has_whsec s)"
proof
  assume "match_whsec s = None"
  then show "\<not> spec_has_whsec s"
    unfolding spec_has_whsec_def using match_whsec_complete by blast
next
  assume n: "\<not> spec_has_whsec s"
  show "match_whsec s = None"
  proof (cases "match_whsec s")
    case None
    then show ?thesis .
  next
    case (Some m)
    from match_whsec_Some [OF this] have "spec_has_whsec s" unfolding spec_has_whsec_def by blast
    with n show ?thesis by simp
  qed
qed

lemma whsec_token_plain:
  assumes "match_whsec out = Some wh"
  shows "wh \<noteq> [] \<and> CHR 0x0A \<notin> set wh"
proof -
  from match_whsec_Some [OF assms] obtain tok where wh: "wh = ''whsec_'' @ tok"
    and tok: "list_all is_alnum tok" by blast
  have "CHR 0x0A \<notin> set tok"
  proof
    assume "CHR 0x0A \<in> set tok"
    with tok have "is_alnum (CHR 0x0A)" by (simp add: list_all_iff)
    then show False by (simp add: is_alnum_def)
  qed
  then show ?thesis using wh by simp
qed

text \<open>
  The match is the leftmost one and is as long as the class allows.
\<close>

lemma match_whsec_example_found:
  "match_whsec ''Ready! Your webhook signing secret is whsec_Ab12 (^C to quit)'' = Some ''whsec_Ab12''"
  by (simp add: match_here_def is_alnum_def)
lemma match_whsec_example_leftmost:
  "match_whsec ''whsec_ whsec_9z-'' = Some ''whsec_9z''"
  by (simp add: match_here_def is_alnum_def)
lemma match_whsec_example_none: "match_whsec ''Ready'' = None"
  by (simp add: match_here_def is_alnum_def)

section \<open>Hexadecimal encoding\<close>

lemma length_toString_hex: "length (toString_hex bs) = 2 * length bs"
  by (induction bs) (simp_all add: toString_hex_def)

lemma hex_digit_in: "hex_digit n \<in> set ''0123456789abcdef''"
  unfolding hex_digit_def by (rule nth_mem) simp

lemma set_toString_hex: "set (toString_hex bs) \<subseteq> set ''0123456789abcdef''"
  unfolding toString_hex_def using hex_digit_in by (induction bs) auto

lemma generateAuthSecret_run:
  "generateAuthSecret w =
     (Ok (toString_hex (map (rng w) [rng_pos w ..< rng_pos w + 32])),
      w\<lparr>rng_pos := rng_pos w + 32,
        trace := trace w @ [Log ''Step 5: Generating AUTH_SECRET...'', RandomBytes 32]\<rparr>)"
  by (simp add: generateAuthSecret_def io_defs)

lemma generateAuthSecret_Ok:
  assumes "generateAuthSecret w = (Ok sec, w')"
  shows "length sec = 64 \<and> set sec \<subseteq> set ''0123456789abcdef''"
proof -
  from assms have "sec = toString_hex (map (rng w) [rng_pos w ..< rng_pos w + 32])"
    by (simp add: generateAuthSecret_run)
  then show ?thesis using set_toString_hex by (simp add: length_toString_hex)
qed

lemma hex_plain:
  assumes "length sec = 64" and "set sec \<subseteq> set ''0123456789abcdef''"
  shows "sec \<noteq> [] \<and> CHR 0x0A \<notin> set sec"
  using assms by auto

section \<open>Joining the lines of the artifact\<close>

lemma foldl_join:
  "foldl (\<lambda>acc y. acc @ sep @ y) (a @ b) ys = a @ foldl (\<lambda>acc y. acc @ sep @ y) b ys"
  by (induction ys arbitrary: b) simp_all

lemma join_Cons2: "join sep (x # y # ys) = x @ sep @ join sep (y # ys)"
  using foldl_join [of sep x "sep @ y" ys]
  by (simp add: join_def) (metis append_Nil2 foldl_join append_assoc)

lemma join_env_lines:
  "join [CHR 0x0A] (map (\<lambda>(key, value). key @ ''='' @ value) env) = spec_env_lines env"
proof (induction env rule: spec_env_lines.induct)
  case 1
  show ?case by (simp add: join_def)
next
  case (2 k v)
  show ?case by (simp add: join_def)
next
  case (3 k v p ps)
  then show ?case by (simp add: join_Cons2 del: spec_env_lines.simps(3)) simp
qed

lemma env_lines_last: "\<exists>pre. spec_env_lines (ps @ [(k, v)]) = pre @ k @ ''='' @ v"
proof (induction ps rule: spec_env_lines.induct)
  case 1
  show ?case by simp
next
  case (2 k' v')
  show ?case by simp
next
  case (3 k' v' p ps)
  then obtain pre where "spec_env_lines ((p # ps) @ [(k, v)]) = pre @ k @ ''='' @ v" by blast
  then have "spec_env_lines (((k', v') # p # ps) @ [(k, v)]) = (k' @ ''='' @ v' @ [CHR 0x0A] @ pre) @ k @ ''='' @ v"
    by simp
  then show ?case by blast
qed

lemma Object_entries_plain:
  assumes "\<forall>k \<in> fst ` set obj. \<not> is_array_index k"
  shows "Object_entries obj = obj"
proof -
  have 1: "filter (\<lambda>(k, v). is_array_index k) obj = []"
    using assms by (auto simp add: filter_empty_conv)
  have 2: "filter (\<lambda>(k, v). \<not> is_array_index k) obj = obj"
    using assms by (auto simp add: filter_id_conv)
  show ?thesis by (simp add: Object_entries_def 1 2)
qed

text \<open>
  Keys that are array indices are listed first, in numeric order, whatever the order of
  creation; \<^verbatim>\<open>01\<close> is not an array index.
\<close>

lemma Object_entries_example:
  "Object_entries [(''B'', ''x''), (''10'', ''y''), (''2'', ''z''), (''01'', ''u'')]
         = [(''2'', ''z''), (''10'', ''y''), (''B'', ''x''), (''01'', ''u'')]"
  by (simp add: Object_entries_def is_array_index_def is_digit_def dec_value_def)

section \<open>Sample runs\<close>

text \<open>
  A run on the local path and a run on the remote path, both with every command
  succeeding. The third run shows a remote database whose URL command prints nothing but
  a line end: the URL stored is empty.
\<close>

lemma local_run:
  "main (scripted [''L'', ''sk_test_123'']
           [ExecOk ''stripe version 1.21.8'', ExecOk ''[default]'', ExecOk (''whsec_abc123'' @ [CHR 0x0A])])
   = (Ok [(''TURSO_DATABASE_URL'', ''file:dev.db''),
          (''STRIPE_SECRET_KEY'', ''sk_test_123''),
          (''STRIPE_WEBHOOK_SECRET'', ''whsec_abc123''),
          (''BASE_URL'', ''http://localhost:3000''),
          (''AUTH_SECRET'', toString_hex (map word_of_nat [0..<32]))],
      world0\<lparr>rng_pos := 32,
        trace :=
          [Log ''Step 1: Checking if Stripe CLI is installed and authenticated...'',
           Exec ''stripe --version'',
           Log ''Stripe CLI is installed.'',
           Exec ''stripe config --list'',
           Log ''Stripe CLI is authenticated.'',
           Log ''Step 2: Setting up Database'',
           Question ''Do you want to use a local SQLite file (L) or a remote Turso database (R)? (L/R): '',
           Log ''Step 3: Getting Stripe Secret Key'',
           Log ''You can find your Stripe Secret Key at: https://dashboard.stripe.com/test/apikeys'',
           Question ''Enter your Stripe Secret Key: '',
           Log ''Step 4: Creating Stripe webhook...'',
           Exec ''stripe listen --print-secret'',
           Log ''Stripe webhook created.'',
           Log ''Step 5: Generating AUTH_SECRET...'',
           RandomBytes 32,
           Log ([CHR 0xF0, CHR 0x9F, CHR 0x8E, CHR 0x89] @ '' Setup completed successfully!'')]\<rparr>)"
  by (simp add: main_def checkStripeCLI_def getTursoDatabaseInfo_def getStripeSecretKey_def
      createStripeWebhook_def generateAuthSecret_def io_defs eval_defs)

lemma remote_run:
  "fst (main (scripted [''R'', ''mydb'', ''tok_1'', ''sk_test_123'']
          [ExecOk ''stripe version 1.21.8'', ExecOk ''[default]'', ExecOk ''turso version v0.96.0'',
           ExecOk ''Created database mydb'', ExecOk (''libsql://mydb-dev.turso.io'' @ [CHR 0x0A]),
           ExecOk (''whsec_abc123'' @ [CHR 0x0A])]))
     = Ok [(''TURSO_DATABASE_URL'', ''libsql://mydb-dev.turso.io''),
           (''STRIPE_SECRET_KEY'', ''sk_test_123''),
           (''STRIPE_WEBHOOK_SECRET'', ''whsec_abc123''),
           (''BASE_URL'', ''http://localhost:3000''),
           (''AUTH_SECRET'', toString_hex (map word_of_nat [0..<32])),
           (''TURSO_AUTH_TOKEN'', ''tok_1'')]"
  by (simp add: run_defs)

lemma main_empty_url_example:
  "fst (main (scripted [''R'', ''mydb'', ''tok_1'', ''sk_test_123'']
          [ExecOk ''stripe version 1.21.8'', ExecOk ''[default]'', ExecOk ''turso version v0.96.0'',
           ExecOk ''Created database mydb'', ExecOk [CHR 0x0A],
           ExecOk (''whsec_abc123'' @ [CHR 0x0A])]))
     = Ok [(''TURSO_DATABASE_URL'', []),
           (''STRIPE_SECRET_KEY'', ''sk_test_123''),
           (''STRIPE_WEBHOOK_SECRET'', ''whsec_abc123''),
           (''BASE_URL'', ''http://localhost:3000''),
           (''AUTH_SECRET'', toString_hex (map word_of_nat [0..<32])),
           (''TURSO_AUTH_TOKEN'', ''tok_1'')]"
  by (simp add: run_defs)

section \<open>The claims\<close>

subsection \<open>C1: the configuration writer as the last step\<close>

text \<open>
  Claim C1 (the code does not do this). The claim: on a run where every check, command
  and prompt succeeds, the workflow ends by writing the artifact with all mandatory keys.
  The source's \<^verbatim>\<open>main\<close> assembles \<^verbatim>\<open>envVars\<close> with the five mandatory keys, prints
  the success line and returns; it never calls \<^verbatim>\<open>writeEnvFile\<close>. On the run below
  (local data store, every command succeeds) the process ends with status 0, the trace
  has no step 6 and no file write, no file exists at the target path and the disk's one
  accepted write is still unused.
\<close>

theorem main_never_writes_env:
  "script (scripted [''L'', ''sk_test_123'']
             [ExecOk ''stripe version 1.21.8'', ExecOk ''[default]'', ExecOk (''whsec_abc123'' @ [CHR 0x0A])])
   = (Some 0,
      world0\<lparr>rng_pos := 32,
        trace :=
          [Log ''Step 1: Checking if Stripe CLI is installed and authenticated...'',
           Exec ''stripe --version'',
           Log ''Stripe CLI is installed.'',
           Exec ''stripe config --list'',
           Log ''Stripe CLI is authenticated.'',
           Log ''Step 2: Setting up Database'',
           Question ''Do you want to use a local SQLite file (L) or a remote Turso database (R)? (L/R): '',
           Log ''Step 3: Getting Stripe Secret Key'',
           Log ''You can find your Stripe Secret Key at: https://dashboard.stripe.com/test/apikeys'',
           Question ''Enter your Stripe Secret Key: '',
           Log ''Step 4: Creating Stripe webhook...'',
           Exec ''stripe listen --print-secret'',
           Log ''Stripe webhook created.'',
           Log ''Step 5: Generating AUTH_SECRET...'',
           RandomBytes 32,
           Log ([CHR 0xF0, CHR 0x9F, CHR 0x8E, CHR 0x89] @ '' Setup completed successfully!'')]\<rparr>) \<and>
   files (snd (script (scripted [''L'', ''sk_test_123'']
             [ExecOk ''stripe version 1.21.8'', ExecOk ''[default]'', ExecOk (''whsec_abc123'' @ [CHR 0x0A])])))
     (path_join ''/home/dev/app'' ''.env'') = None \<and>
   write_results (snd (script (scripted [''L'', ''sk_test_123'']
             [ExecOk ''stripe version 1.21.8'', ExecOk ''[default]'', ExecOk (''whsec_abc123'' @ [CHR 0x0A])])))
     = [WriteOk] \<and>
   fst (main (scripted [''L'', ''sk_test_123'']
             [ExecOk ''stripe version 1.21.8'', ExecOk ''[default]'', ExecOk (''whsec_abc123'' @ [CHR 0x0A])]))
     = Ok [(''TURSO_DATABASE_URL'', ''file:dev.db''),
           (''STRIPE_SECRET_KEY'', ''sk_test_123''),
           (''STRIPE_WEBHOOK_SECRET'', ''whsec_abc123''),
           (''BASE_URL'', ''http://localhost:3000''),
           (''AUTH_SECRET'', toString_hex (map word_of_nat [0..<32]))]"
  unfolding script_def local_run by (simp add: world0_def path_join_def)

subsection \<open>C2: no webhook secret in the output\<close>

text \<open>
  Claim C2, amended. When the output of \<^verbatim>\<open>stripe listen --print-secret\<close> has no
  substring \<^verbatim>\<open>whsec_\<close> followed by one or more alphanumeric characters, the registrar
  throws an error whose message is \<^verbatim>\<open>Failed to extract Stripe webhook secret\<close>, after
  printing its diagnostic (and the note for Windows there). When the three steps before
  it have returned, \<^verbatim>\<open>main\<close> rejects with that error, the top-level handler prints it
  last, the process ends and the file system is as it was. (The status it ends with is
  the matter of C4.)
\<close>

theorem webhook_extraction_failure:
  "(execs w3 = ExecOk out # rest \<and> \<not> spec_has_whsec out \<longrightarrow>
      createStripeWebhook w3 =
        (Thrown (Error ''Failed to extract Stripe webhook secret''),
         w3\<lparr>execs := rest,
           trace := trace w3 @
             [Log ''Step 4: Creating Stripe webhook...'',
              Exec ''stripe listen --print-secret'',
              LogError ''Failed to create Stripe webhook. Check your Stripe CLI installation and permissions.'']
             @ (if platform w3 = ''win32''
                then [Log ''Note: On Windows, you may need to run this script as an administrator.'']
                else [])\<rparr>)) \<and>
   (checkStripeCLI w = (Ok (), w1) \<and> getTursoDatabaseInfo w1 = (Ok db, w2) \<and>
    getStripeSecretKey w2 = (Ok key, w3) \<and> execs w3 = ExecOk out # rest \<and> \<not> spec_has_whsec out \<longrightarrow>
      fst (main w) = Thrown (Error ''Failed to extract Stripe webhook secret'') \<and>
      fst (script w) = Some 0 \<and>
      files (snd (script w)) = files w \<and>
      last (trace (snd (script w))) = LogErrorObj (Error ''Failed to extract Stripe webhook secret''))"
proof (intro conjI impI)
  assume h: "execs w3 = ExecOk out # rest \<and> \<not> spec_has_whsec out"
  then have "match_whsec out = None" by (simp add: match_whsec_None_iff)
  with h show "createStripeWebhook w3 =
        (Thrown (Error ''Failed to extract Stripe webhook secret''),
         w3\<lparr>execs := rest,
           trace := trace w3 @
             [Log ''Step 4: Creating Stripe webhook...'',
              Exec ''stripe listen --print-secret'',
              LogError ''Failed to create Stripe webhook. Check your Stripe CLI installation and permissions.'']
             @ (if platform w3 = ''win32''
                then [Log ''Note: On Windows, you may need to run this script as an administrator.'']
                else [])\<rparr>)"
    by (simp add: createStripeWebhook_no_match)
next
  assume h: "checkStripeCLI w = (Ok (), w1) \<and> getTursoDatabaseInfo w1 = (Ok db, w2) \<and>
    getStripeSecretKey w2 = (Ok key, w3) \<and> execs w3 = ExecOk out # rest \<and> \<not> spec_has_whsec out"
  then have n: "match_whsec out = None" by (simp add: match_whsec_None_iff)
  obtain w4 where w4: "createStripeWebhook w3 = (Thrown (Error ''Failed to extract Stripe webhook secret''), w4)"
    using createStripeWebhook_no_match [OF _ n, of w3 rest] h by simp
  have m: "main w = (Thrown (Error ''Failed to extract Stripe webhook secret''), w4)"
    using h w4 by (intro main_webhook_throws) auto
  then show "fst (main w) = Thrown (Error ''Failed to extract Stripe webhook secret'')" by simp
  from script_Thrown [OF m] show "fst (script w) = Some 0"
    and "last (trace (snd (script w))) = LogErrorObj (Error ''Failed to extract Stripe webhook secret'')"
    by (simp_all add: emit_def)
  show "files (snd (script w)) = files w" by (rule script_files)
qed

text \<open>
  A run where the hypotheses hold: the local path, and a webhook session that prints
  no secret.
\<close>

theorem webhook_extraction_failure_witness:
  "\<not> spec_has_whsec ''Ready! Waiting for events'' \<and>
   fst (main (scripted [''L'', ''sk_test_123'']
          [ExecOk ''stripe version 1.21.8'', ExecOk ''[default]'', ExecOk ''Ready! Waiting for events'']))
     = Thrown (Error ''Failed to extract Stripe webhook secret'') \<and>
   fst (script (scripted [''L'', ''sk_test_123'']
          [ExecOk ''stripe version 1.21.8'', ExecOk ''[default]'', ExecOk ''Ready! Waiting for events'']))
     = Some 0 \<and>
   files (snd (script (scripted [''L'', ''sk_test_123'']
          [ExecOk ''stripe version 1.21.8'', ExecOk ''[default]'', ExecOk ''Ready! Waiting for events''])))
     = Map.empty"
proof -
  let ?w = "scripted [''L'', ''sk_test_123'']
          [ExecOk ''stripe version 1.21.8'', ExecOk ''[default]'', ExecOk ''Ready! Waiting for events'']"
  let ?w1 = "snd (checkStripeCLI ?w)"
  let ?w2 = "snd (getTursoDatabaseInfo ?w1)"
  let ?w3 = "snd (getStripeSecretKey ?w2)"
  have n: "\<not> spec_has_whsec ''Ready! Waiting for events''"
    by (simp add: match_whsec_None_iff [symmetric] match_here_def)
  have 1: "checkStripeCLI ?w = (Ok (), ?w1)" by (simp add: run_defs)
  have 2: "getTursoDatabaseInfo ?w1 =
             (Ok \<lparr>url = ''file:dev.db'', isRemote = False, authToken = None\<rparr>, ?w2)"
    by (simp add: run_defs)
  have 3: "getStripeSecretKey ?w2 = (Ok ''sk_test_123'', ?w3)" by (simp add: run_defs)
  have 4: "execs ?w3 = ExecOk ''Ready! Waiting for events'' # []" by (simp add: run_defs)
  show ?thesis
    using webhook_extraction_failure [where w = ?w and ?w1.0 = ?w1 and ?w2.0 = ?w2 and ?w3.0 = ?w3
        and db = "\<lparr>url = ''file:dev.db'', isRemote = False, authToken = None\<rparr>"
        and key = "''sk_test_123''" and out = "''Ready! Waiting for events''" and rest = "[]"]
      n 1 2 3 4
    by (simp add: scripted_def world0_def)
qed

text \<open>
  The message is not the one the claim quotes, \<^verbatim>\<open>Failed to extract webhook secret\<close>.
\<close>

theorem webhook_message_counterexample:
  "fst (createStripeWebhook (scripted [] [ExecOk ''Ready! Waiting for events'']))
     = Thrown (Error ''Failed to extract Stripe webhook secret'') \<and>
   fst (createStripeWebhook (scripted [] [ExecOk ''Ready! Waiting for events'']))
     \<noteq> Thrown (Error ''Failed to extract webhook secret'')"
  by (simp add: run_defs)

subsection \<open>C3: when the auth-token key is present\<close>

text \<open>
  Claim C3, amended. When \<^verbatim>\<open>main\<close> returns, the first answer after the preflight check
  is the data-store choice; the store is remote exactly when that answer, lowercased, is
  not \<^verbatim>\<open>l\<close>, and then the third answer is the auth token. The key
  \<^verbatim>\<open>TURSO_AUTH_TOKEN\<close> is in the assembled mapping exactly when the store is remote and
  the token is not the empty string (the source's guard is
  \<^verbatim>\<open>isRemote && TURSO_AUTH_TOKEN\<close>).
\<close>

theorem main_auth_token_key:
  "main w = (Ok env, w') \<longrightarrow>
     (\<exists>w1 w2 db a as.
        checkStripeCLI w = (Ok (), w1) \<and> getTursoDatabaseInfo w1 = (Ok db, w2) \<and>
        answers w1 = a # as \<and>
        isRemote db = (toLowerCase a \<noteq> ''l'') \<and>
        (isRemote db \<longrightarrow> (\<exists>n t r. as = n # t # r \<and> authToken db = Some t)) \<and>
        ((''TURSO_AUTH_TOKEN'' \<in> fst ` set env) =
           (isRemote db \<and> (\<exists>t. authToken db = Some t \<and> t \<noteq> []))))"
proof
  assume "main w = (Ok env, w')"
  from main_Ok [OF this] obtain u w1 db w2 key wh sec where
    "checkStripeCLI w = (Ok u, w1)" and 2: "getTursoDatabaseInfo w1 = (Ok db, w2)"
    and env: "env = [(''TURSO_DATABASE_URL'', url db), (''STRIPE_SECRET_KEY'', key),
                  (''STRIPE_WEBHOOK_SECRET'', wh), (''BASE_URL'', ''http://localhost:3000''),
                  (''AUTH_SECRET'', sec)]
                 @ (case authToken db of
                      Some t \<Rightarrow> if isRemote db \<and> t \<noteq> [] then [(''TURSO_AUTH_TOKEN'', t)] else []
                    | None \<Rightarrow> [])"
    by blast
  then have 1: "checkStripeCLI w = (Ok (), w1)" by simp
  from getTursoDatabaseInfo_Ok [OF 2] obtain a as where a: "answers w1 = a # as"
    and d: "if toLowerCase a = ''l''
            then db = \<lparr>url = ''file:dev.db'', isRemote = False, authToken = None\<rparr> \<and> answers w2 = as
            else \<exists>n t r out. as = n # t # r \<and> answers w2 = r \<and>
                   db = \<lparr>url = trim out, isRemote = True, authToken = Some t\<rparr>"
    by blast
  have r: "isRemote db = (toLowerCase a \<noteq> ''l'')"
    using d by (auto split: if_splits)
  have t: "isRemote db \<longrightarrow> (\<exists>n t r. as = n # t # r \<and> authToken db = Some t)"
    using d by (auto split: if_splits)
  have k: "(''TURSO_AUTH_TOKEN'' \<in> fst ` set env) =
           (isRemote db \<and> (\<exists>t. authToken db = Some t \<and> t \<noteq> []))"
    unfolding env by (cases "authToken db") auto
  from 1 2 a r t k show "\<exists>w1 w2 db a as.
        checkStripeCLI w = (Ok (), w1) \<and> getTursoDatabaseInfo w1 = (Ok db, w2) \<and>
        answers w1 = a # as \<and>
        isRemote db = (toLowerCase a \<noteq> ''l'') \<and>
        (isRemote db \<longrightarrow> (\<exists>n t r. as = n # t # r \<and> authToken db = Some t)) \<and>
        ((''TURSO_AUTH_TOKEN'' \<in> fst ` set env) =
           (isRemote db \<and> (\<exists>t. authToken db = Some t \<and> t \<noteq> [])))"
    by blast
qed

text \<open>
  A run where the hypothesis holds: the remote path with a token.
\<close>

theorem main_auth_token_key_witness:
  "fst (main (scripted [''R'', ''mydb'', ''tok_1'', ''sk_test_123'']
          [ExecOk ''stripe version 1.21.8'', ExecOk ''[default]'', ExecOk ''turso version v0.96.0'',
           ExecOk ''Created database mydb'', ExecOk (''libsql://mydb-dev.turso.io'' @ [CHR 0x0A]),
           ExecOk (''whsec_abc123'' @ [CHR 0x0A])])) = Ok [(''TURSO_DATABASE_URL'', ''libsql://mydb-dev.turso.io''),
           (''STRIPE_SECRET_KEY'', ''sk_test_123''),
           (''STRIPE_WEBHOOK_SECRET'', ''whsec_abc123''),
           (''BASE_URL'', ''http://localhost:3000''),
           (''AUTH_SECRET'', toString_hex (map word_of_nat [0..<32])),
           (''TURSO_AUTH_TOKEN'', ''tok_1'')] \<and>
   (\<exists>w1 w2 db a as.
      checkStripeCLI (scripted [''R'', ''mydb'', ''tok_1'', ''sk_test_123'']
          [ExecOk ''stripe version 1.21.8'', ExecOk ''[default]'', ExecOk ''turso version v0.96.0'',
           ExecOk ''Created database mydb'', ExecOk (''libsql://mydb-dev.turso.io'' @ [CHR 0x0A]),
           ExecOk (''whsec_abc123'' @ [CHR 0x0A])]) = (Ok (), w1) \<and> getTursoDatabaseInfo w1 = (Ok db, w2) \<and>
      answers w1 = a # as \<and>
      isRemote db = (toLowerCase a \<noteq> ''l'') \<and>
      (isRemote db \<longrightarrow> (\<exists>n t r. as = n # t # r \<and> authToken db = Some t)) \<and>
      ((''TURSO_AUTH_TOKEN'' \<in> fst ` set [(''TURSO_DATABASE_URL'', ''libsql://mydb-dev.turso.io''),
           (''STRIPE_SECRET_KEY'', ''sk_test_123''),
           (''STRIPE_WEBHOOK_SECRET'', ''whsec_abc123''),
           (''BASE_URL'', ''http://localhost:3000''),
           (''AUTH_SECRET'', toString_hex (map word_of_nat [0..<32])),
           (''TURSO_AUTH_TOKEN'', ''tok_1'')]) =
         (isRemote db \<and> (\<exists>t. authToken db = Some t \<and> t \<noteq> []))))"
proof -
  let ?w = "(scripted [''R'', ''mydb'', ''tok_1'', ''sk_test_123'']
          [ExecOk ''stripe version 1.21.8'', ExecOk ''[default]'', ExecOk ''turso version v0.96.0'',
           ExecOk ''Created database mydb'', ExecOk (''libsql://mydb-dev.turso.io'' @ [CHR 0x0A]),
           ExecOk (''whsec_abc123'' @ [CHR 0x0A])])"
  let ?env = "[(''TURSO_DATABASE_URL'', ''libsql://mydb-dev.turso.io''),
           (''STRIPE_SECRET_KEY'', ''sk_test_123''),
           (''STRIPE_WEBHOOK_SECRET'', ''whsec_abc123''),
           (''BASE_URL'', ''http://localhost:3000''),
           (''AUTH_SECRET'', toString_hex (map word_of_nat [0..<32])),
           (''TURSO_AUTH_TOKEN'', ''tok_1'')]"
  have m: "main ?w = (Ok ?env, snd (main ?w))"
    using remote_run by (cases "main ?w") simp
  show ?thesis
    using main_auth_token_key [of ?w ?env "snd (main ?w)"] m remote_run by blast
qed

text \<open>
  The claim as stated fails on the remote path with an empty token: the operator chose
  the remote store and the mapping has no \<^verbatim>\<open>TURSO_AUTH_TOKEN\<close>.
\<close>

theorem auth_token_key_counterexample:
  "toLowerCase ''R'' \<noteq> ''l'' \<and>
   fst (main (scripted [''R'', ''mydb'', '''', ''sk_test_123'']
          [ExecOk ''stripe version 1.21.8'', ExecOk ''[default]'', ExecOk ''turso version v0.96.0'',
           ExecOk ''Created database mydb'', ExecOk (''libsql://mydb-dev.turso.io'' @ [CHR 0x0A]),
           ExecOk (''whsec_abc123'' @ [CHR 0x0A])]))
     = Ok [(''TURSO_DATABASE_URL'', ''libsql://mydb-dev.turso.io''),
           (''STRIPE_SECRET_KEY'', ''sk_test_123''),
           (''STRIPE_WEBHOOK_SECRET'', ''whsec_abc123''),
           (''BASE_URL'', ''http://localhost:3000''),
           (''AUTH_SECRET'', toString_hex (map word_of_nat [0..<32]))]"
  by (simp add: run_defs)

subsection \<open>C4: errors and the exit status\<close>

text \<open>
  Claim C4 (the code does not do this). The claim: an error of the webhook step or of
  the file write ends the process with a status other than 0. Every other failure of the
  script ends in \<^verbatim>\<open>process.exit(1)\<close>; the errors the webhook registrar re-throws reach
  the handler of the last line, \<^verbatim>\<open>main().catch(console.error)\<close>, which prints them, and
  nothing sets an exit code. On the runs below, a webhook session that prints no secret
  and a webhook command that fails both reject \<^verbatim>\<open>main\<close> and the process ends with
  status 0, while a failing \<^verbatim>\<open>turso db create\<close> ends it with status 1.
\<close>

theorem webhook_error_exit_status:
  "fst (script (scripted [''L'', ''sk_test_123'']
          [ExecOk ''stripe version 1.21.8'', ExecOk ''[default]'', ExecOk ''Ready! Waiting for events'']))
     = Some 0 \<and>
   fst (main (scripted [''L'', ''sk_test_123'']
          [ExecOk ''stripe version 1.21.8'', ExecOk ''[default]'', ExecOk ''Ready! Waiting for events'']))
     = Thrown (Error ''Failed to extract Stripe webhook secret'') \<and>
   fst (script (scripted [''L'', ''sk_test_123'']
          [ExecOk ''stripe version 1.21.8'', ExecOk ''[default]'', ExecFail ''stripe listen: not logged in'']))
     = Some 0 \<and>
   fst (main (scripted [''L'', ''sk_test_123'']
          [ExecOk ''stripe version 1.21.8'', ExecOk ''[default]'', ExecFail ''stripe listen: not logged in'']))
     = Thrown (ExecError ''stripe listen: not logged in'') \<and>
   fst (script (scripted [''R'', ''mydb'']
          [ExecOk ''stripe version 1.21.8'', ExecOk ''[default]'', ExecOk ''turso version v0.96.0'',
           ExecFail ''turso db create: database already exists'']))
     = Some 1"
  by (simp add: script_def run_defs)

subsection \<open>C5: the auth probe is run at most twice\<close>

text \<open>
  Claim C5. In a whole run of the script the auth probe is run at most twice. When the
  version probe succeeds and the first auth probe fails, the operator is asked once. An
  answer that is not yes (its lowercase form is not \<^verbatim>\<open>y\<close>) ends the process with
  status 1 after that one probe. On yes the probe is run exactly once more, so twice in
  all; if it fails again the process ends with status 1, and if it succeeds the check
  returns.
\<close>

theorem checkStripeCLI_auth_recheck:
  "auth_probes (snd (script w)) \<le> auth_probes w + 2 \<and>
   (execs w = ExecOk v # ExecFail msg # rest \<and> answers w = a # as \<longrightarrow>
      (toLowerCase a \<noteq> ''y'' \<longrightarrow>
         fst (checkStripeCLI w) = Exited 1 \<and> fst (script w) = Some 1 \<and>
         auth_probes (snd (script w)) = auth_probes w + 1) \<and>
      (toLowerCase a = ''y'' \<longrightarrow>
         auth_probes (snd (script w)) = auth_probes w + 2) \<and>
      (toLowerCase a = ''y'' \<and> rest = ExecFail msg' # rest' \<longrightarrow>
         fst (checkStripeCLI w) = Exited 1 \<and> fst (script w) = Some 1) \<and>
      (toLowerCase a = ''y'' \<and> rest = ExecOk v' # rest' \<longrightarrow>
         fst (checkStripeCLI w) = Ok ()))"
proof (intro conjI impI)
  show "auth_probes (snd (script w)) \<le> auth_probes w + 2"
    using checkStripeCLI_probes_le [of w] by (simp add: script_probes)
next
  assume h: "execs w = ExecOk v # ExecFail msg # rest \<and> answers w = a # as"
    and n: "toLowerCase a \<noteq> ''y''"
  show e: "fst (checkStripeCLI w) = Exited 1"
    using h n by (simp add: checkStripeCLI_def io_defs)
  show "fst (script w) = Some 1" using e by (rule main_exit)
  have "auth_probes (snd (checkStripeCLI w)) = auth_probes w + 1"
    using h n by (simp add: checkStripeCLI_def io_defs auth_probes_def)
  then show "auth_probes (snd (script w)) = auth_probes w + 1"
    by (simp only: script_probes)
next
  assume h: "execs w = ExecOk v # ExecFail msg # rest \<and> answers w = a # as"
    and y: "toLowerCase a = ''y''"
  have "auth_probes (snd (checkStripeCLI w)) = auth_probes w + 2"
    using h y by (cases rest; cases "hd rest") (simp_all add: checkStripeCLI_def io_defs auth_probes_def)
  then show "auth_probes (snd (script w)) = auth_probes w + 2"
    by (simp only: script_probes)
next
  assume h: "execs w = ExecOk v # ExecFail msg # rest \<and> answers w = a # as"
    and y: "toLowerCase a = ''y'' \<and> rest = ExecFail msg' # rest'"
  show e: "fst (checkStripeCLI w) = Exited 1"
    using h y by (simp add: checkStripeCLI_def io_defs)
  show "fst (script w) = Some 1" using e by (rule main_exit)
next
  assume h: "execs w = ExecOk v # ExecFail msg # rest \<and> answers w = a # as"
    and y: "toLowerCase a = ''y'' \<and> rest = ExecOk v' # rest'"
  show "fst (checkStripeCLI w) = Ok ()"
    using h y by (simp add: checkStripeCLI_def io_defs)
qed

text \<open>
  Runs where the hypotheses hold: the answers \<^verbatim>\<open>n\<close>, and \<^verbatim>\<open>Y\<close> with a second
  failure.
\<close>

theorem checkStripeCLI_auth_recheck_witness:
  "fst (checkStripeCLI (scripted [''n''] [ExecOk ''stripe version 1.21.8'', ExecFail ''not logged in''])) = Exited 1 \<and>
   fst (script (scripted [''n''] [ExecOk ''stripe version 1.21.8'', ExecFail ''not logged in''])) = Some 1 \<and>
   auth_probes (snd (script (scripted [''n''] [ExecOk ''stripe version 1.21.8'', ExecFail ''not logged in'']))) = 1 \<and>
   fst (checkStripeCLI (scripted [''Y''] [ExecOk ''stripe version 1.21.8'', ExecFail ''not logged in'', ExecFail ''not logged in''])) = Exited 1 \<and>
   auth_probes (snd (script (scripted [''Y''] [ExecOk ''stripe version 1.21.8'', ExecFail ''not logged in'', ExecFail ''not logged in'']))) = 2"
  using checkStripeCLI_auth_recheck [of "scripted [''n''] [ExecOk ''stripe version 1.21.8'', ExecFail ''not logged in'']"
      "''stripe version 1.21.8''" "''not logged in''" "[]" "''n''" "[]"]
    checkStripeCLI_auth_recheck [of "scripted [''Y''] [ExecOk ''stripe version 1.21.8'', ExecFail ''not logged in'', ExecFail ''not logged in'']"
      "''stripe version 1.21.8''" "''not logged in''" "[ExecFail ''not logged in'']" "''Y''" "[]" "''not logged in''" "[]"]
  by (simp add: eval_defs auth_probes_def)

subsection \<open>C6: the lines of the artifact\<close>

text \<open>
  Claim C6. For a mapping none of whose keys is an array index (every key \<^verbatim>\<open>main\<close>
  builds is such a key), when the disk accepts the write, \<^verbatim>\<open>writeEnvFile\<close> stores at
  \<^verbatim>\<open>.env\<close> under the working directory exactly the specification's lines: one
  \<^verbatim>\<open>KEY=value\<close> a pair, in the order of the mapping, a newline between two lines. What
  was at the path before plays no part, and no other path changes. The text ends with
  the last pair's value: there is no trailing newline.
\<close>

theorem writeEnvFile_lines:
  "((\<forall>k \<in> fst ` set envVars. \<not> is_array_index k) \<and> write_results w = WriteOk # rest \<longrightarrow>
      writeEnvFile envVars w =
        (Ok (),
         w\<lparr>write_results := rest,
           files := (files w)(path_join (cwd w) ''.env'' \<mapsto> spec_env_lines envVars),
           trace := trace w @
             [Log ''Step 6: Writing environment variables to .env'',
              WriteFile (path_join (cwd w) ''.env'') (spec_env_lines envVars),
              Log ''.env file created with the necessary variables.'']\<rparr>)) \<and>
   (\<exists>pre. spec_env_lines (ps @ [(k, v)]) = pre @ k @ ''='' @ v)"
proof (intro conjI impI)
  assume h: "(\<forall>k \<in> fst ` set envVars. \<not> is_array_index k) \<and> write_results w = WriteOk # rest"
  then have e: "Object_entries envVars = envVars" by (simp add: Object_entries_plain)
  show "writeEnvFile envVars w =
        (Ok (),
         w\<lparr>write_results := rest,
           files := (files w)(path_join (cwd w) ''.env'' \<mapsto> spec_env_lines envVars),
           trace := trace w @
             [Log ''Step 6: Writing environment variables to .env'',
              WriteFile (path_join (cwd w) ''.env'') (spec_env_lines envVars),
              Log ''.env file created with the necessary variables.'']\<rparr>)"
    using h unfolding writeEnvFile_def Let_def e join_env_lines by (simp add: io_defs)
next
  show "\<exists>pre. spec_env_lines (ps @ [(k, v)]) = pre @ k @ ''='' @ v"
    by (rule env_lines_last)
qed

text \<open>
  A world where the hypotheses hold, with an older artifact at the path.
\<close>

theorem writeEnvFile_lines_witness:
  "writeEnvFile
     [(''TURSO_DATABASE_URL'', ''file:dev.db''), (''BASE_URL'', ''http://localhost:3000'')]
     (world0\<lparr>files := [''/home/dev/app/.env'' \<mapsto> ''OLD_KEY=1'' @ [CHR 0x0A]]\<rparr>)
   = (Ok (),
      world0\<lparr>write_results := [],
        files := [''/home/dev/app/.env'' \<mapsto>
                    ''TURSO_DATABASE_URL=file:dev.db'' @ [CHR 0x0A] @ ''BASE_URL=http://localhost:3000''],
        trace :=
          [Log ''Step 6: Writing environment variables to .env'',
           WriteFile ''/home/dev/app/.env''
             (''TURSO_DATABASE_URL=file:dev.db'' @ [CHR 0x0A] @ ''BASE_URL=http://localhost:3000''),
           Log ''.env file created with the necessary variables.'']\<rparr>)"
  using writeEnvFile_lines [of
      "[(''TURSO_DATABASE_URL'', ''file:dev.db''), (''BASE_URL'', ''http://localhost:3000'')]"
      "world0\<lparr>files := [''/home/dev/app/.env'' \<mapsto> ''OLD_KEY=1'' @ [CHR 0x0A]]\<rparr>" "[]"
      "[(''TURSO_DATABASE_URL'', ''file:dev.db'')]" "''BASE_URL''" "''http://localhost:3000''"]
  by (simp add: world0_def is_array_index_def is_digit_def path_join_def)

subsection \<open>C7: a failing version probe\<close>

text \<open>
  Claim C7. When the first command, the version probe \<^verbatim>\<open>stripe --version\<close>, fails,
  the process ends with status 1. The script has printed its step line, run that one
  command and printed the installation help; no other command is run, nothing is asked,
  no random byte is drawn and no file is written.
\<close>

theorem version_probe_failure_stops:
  "execs w = ExecFail msg # rest \<longrightarrow>
   script w =
     (Some 1,
      w\<lparr>execs := rest,
        trace := trace w @
          [Log ''Step 1: Checking if Stripe CLI is installed and authenticated...'',
           Exec ''stripe --version'',
           LogError ''Stripe CLI is not installed. Please install it and try again.'',
           Log ''To install Stripe CLI, follow these steps:'',
           Log ''1. Visit: https://docs.stripe.com/stripe-cli'',
           Log ''2. Download and install the Stripe CLI for your operating system'',
           Log ''3. After installation, run: stripe login'',
           Log ''After installation and authentication, please run this setup script again.'']\<rparr>)"
  by (simp add: script_def main_def checkStripeCLI_def io_defs)

text \<open>
  A run where the hypothesis holds.
\<close>

theorem version_probe_failure_stops_witness:
  "script (scripted [''L'', ''sk_test_123''] [ExecFail ''stripe: command not found'', ExecOk ''whsec_abc123'']) =
     (Some 1,
      world0\<lparr>answers := [''L'', ''sk_test_123''], execs := [ExecOk ''whsec_abc123''],
        trace :=
          [Log ''Step 1: Checking if Stripe CLI is installed and authenticated...'',
           Exec ''stripe --version'',
           LogError ''Stripe CLI is not installed. Please install it and try again.'',
           Log ''To install Stripe CLI, follow these steps:'',
           Log ''1. Visit: https://docs.stripe.com/stripe-cli'',
           Log ''2. Download and install the Stripe CLI for your operating system'',
           Log ''3. After installation, run: stripe login'',
           Log ''After installation and authentication, please run this setup script again.'']\<rparr>)"
  using version_probe_failure_stops [of "scripted [''L'', ''sk_test_123''] [ExecFail ''stripe: command not found'', ExecOk ''whsec_abc123'']"
      "''stripe: command not found''" "[ExecOk ''whsec_abc123'']"]
  by (simp add: scripted_def world0_def)

subsection \<open>C8: the generated secret\<close>

text \<open>
  Claim C8. \<^verbatim>\<open>generateAuthSecret\<close> always returns: it prints its step line, draws 32
  bytes from the random source and returns their hexadecimal encoding, which has exactly
  64 characters, each one of \<open>0123456789abcdef\<close>. It runs no external command, asks
  nothing and writes no file: apart from the position in the random stream and the two
  trace entries, the world is unchanged.
\<close>

theorem generateAuthSecret_hex64:
  "generateAuthSecret w =
     (Ok (toString_hex (map (rng w) [rng_pos w ..< rng_pos w + 32])),
      w\<lparr>rng_pos := rng_pos w + 32,
        trace := trace w @ [Log ''Step 5: Generating AUTH_SECRET...'', RandomBytes 32]\<rparr>)
   \<and> length (toString_hex (map (rng w) [rng_pos w ..< rng_pos w + 32])) = 64
   \<and> set (toString_hex (map (rng w) [rng_pos w ..< rng_pos w + 32])) \<subseteq> set ''0123456789abcdef''"
proof (intro conjI)
  show "generateAuthSecret w =
     (Ok (toString_hex (map (rng w) [rng_pos w ..< rng_pos w + 32])),
      w\<lparr>rng_pos := rng_pos w + 32,
        trace := trace w @ [Log ''Step 5: Generating AUTH_SECRET...'', RandomBytes 32]\<rparr>)"
    by (simp add: generateAuthSecret_def io_defs)
  show "length (toString_hex (map (rng w) [rng_pos w ..< rng_pos w + 32])) = 64"
    by (simp add: length_toString_hex)
  show "set (toString_hex (map (rng w) [rng_pos w ..< rng_pos w + 32])) \<subseteq> set ''0123456789abcdef''"
    by (rule set_toString_hex)
qed

subsection \<open>C9: the values of the mapping\<close>

text \<open>
  Claim C9, amended. When \<^verbatim>\<open>main\<close> returns and no answer of the operator holds a line
  feed (the line reader delivers single lines), every value of the assembled mapping
  other than \<^verbatim>\<open>TURSO_DATABASE_URL\<close> is free of line feeds, and every value other than
  \<^verbatim>\<open>TURSO_DATABASE_URL\<close> and \<^verbatim>\<open>STRIPE_SECRET_KEY\<close> is non-empty.
  \<^verbatim>\<open>STRIPE_SECRET_KEY\<close> is, unchanged, the operator's answer to the key prompt: the answer
  after the choice on the local path, the answer after the database name and the token
  on the remote path. \<^verbatim>\<open>TURSO_DATABASE_URL\<close> is \<^verbatim>\<open>file:dev.db\<close> on the local path, and
  on the remote path the trimmed output of the URL command, the third command run after
  the preflight check.
\<close>

theorem main_values:
  "main w = (Ok env, w') \<and> (\<forall>a \<in> set (answers w). CHR 0x0A \<notin> set a) \<longrightarrow>
     (\<forall>(k, v) \<in> set env.
        (k \<noteq> ''TURSO_DATABASE_URL'' \<longrightarrow> CHR 0x0A \<notin> set v) \<and>
        (k \<noteq> ''TURSO_DATABASE_URL'' \<and> k \<noteq> ''STRIPE_SECRET_KEY'' \<longrightarrow> v \<noteq> [])) \<and>
     (\<exists>w1 a as. checkStripeCLI w = (Ok (), w1) \<and> answers w1 = a # as \<and>
        (toLowerCase a = ''l'' \<longrightarrow>
           map_of env ''TURSO_DATABASE_URL'' = Some ''file:dev.db'' \<and>
           (\<exists>key r. as = key # r \<and> map_of env ''STRIPE_SECRET_KEY'' = Some key)) \<and>
        (toLowerCase a \<noteq> ''l'' \<longrightarrow>
           (\<exists>n t key r v c out es.
              as = n # t # key # r \<and>
              execs w1 = ExecOk v # ExecOk c # ExecOk out # es \<and>
              map_of env ''TURSO_DATABASE_URL'' = Some (trim out) \<and>
              map_of env ''STRIPE_SECRET_KEY'' = Some key)))"
proof
  assume h: "main w = (Ok env, w') \<and> (\<forall>a \<in> set (answers w). CHR 0x0A \<notin> set a)"
  from main_Ok [of w env w'] h obtain u w1 db w2 key w3 wh w4 sec w5 where
    "checkStripeCLI w = (Ok u, w1)" and 2: "getTursoDatabaseInfo w1 = (Ok db, w2)"
    and 3: "getStripeSecretKey w2 = (Ok key, w3)" and 4: "createStripeWebhook w3 = (Ok wh, w4)"
    and 5: "generateAuthSecret w4 = (Ok sec, w5)"
    and env: "env = [(''TURSO_DATABASE_URL'', url db), (''STRIPE_SECRET_KEY'', key),
                  (''STRIPE_WEBHOOK_SECRET'', wh), (''BASE_URL'', ''http://localhost:3000''),
                  (''AUTH_SECRET'', sec)]
                 @ (case authToken db of
                      Some t \<Rightarrow> if isRemote db \<and> t \<noteq> [] then [(''TURSO_AUTH_TOKEN'', t)] else []
                    | None \<Rightarrow> [])"
    by blast
  then have 1: "checkStripeCLI w = (Ok (), w1)" by simp
  have s1: "set (answers w1) \<subseteq> set (answers w)" using 1 by (rule checkStripeCLI_Ok_answers)
  from getTursoDatabaseInfo_Ok_outputs [OF 2] obtain a as where a: "answers w1 = a # as"
    and d: "if toLowerCase a = ''l''
            then db = \<lparr>url = ''file:dev.db'', isRemote = False, authToken = None\<rparr> \<and>
                 answers w2 = as \<and> execs w2 = execs w1
            else \<exists>n t r v c out es.
                   as = n # t # r \<and> answers w2 = r \<and>
                   execs w1 = ExecOk v # ExecOk c # ExecOk out # es \<and> execs w2 = es \<and>
                   db = \<lparr>url = trim out, isRemote = True, authToken = Some t\<rparr>"
    by blast
  obtain kr where k: "answers w2 = key # kr" using getStripeSecretKey_Ok_answer [OF 3] by blast
  have s2: "set (answers w2) \<subseteq> set (answers w1)"
    using a d by (auto split: if_splits)
  have tok: "authToken db = Some t \<Longrightarrow> t \<in> set (answers w1)" for t
    using a d by (auto split: if_splits)
  have key: "key \<in> set (answers w)" using k s1 s2 by auto
  have key_plain: "CHR 0x0A \<notin> set key" using key h by blast
  have tok_plain: "authToken db = Some t \<Longrightarrow> CHR 0x0A \<notin> set t" for t
    using tok [of t] s1 h by blast
  obtain out where "match_whsec out = Some wh" using createStripeWebhook_Ok [OF 4] by blast
  then have wh: "wh \<noteq> [] \<and> CHR 0x0A \<notin> set wh" by (rule whsec_token_plain)
  have sec: "sec \<noteq> [] \<and> CHR 0x0A \<notin> set sec"
    using generateAuthSecret_Ok [OF 5] hex_plain by blast
  have vals: "\<forall>(k, v) \<in> set env.
        (k \<noteq> ''TURSO_DATABASE_URL'' \<longrightarrow> CHR 0x0A \<notin> set v) \<and>
        (k \<noteq> ''TURSO_DATABASE_URL'' \<and> k \<noteq> ''STRIPE_SECRET_KEY'' \<longrightarrow> v \<noteq> [])"
    unfolding env using key_plain tok_plain wh sec
    by (cases "authToken db") (auto split: if_splits)
  have mu: "map_of env ''TURSO_DATABASE_URL'' = Some (url db)"
    and mk: "map_of env ''STRIPE_SECRET_KEY'' = Some key"
    unfolding env by simp_all
  show "(\<forall>(k, v) \<in> set env.
        (k \<noteq> ''TURSO_DATABASE_URL'' \<longrightarrow> CHR 0x0A \<notin> set v) \<and>
        (k \<noteq> ''TURSO_DATABASE_URL'' \<and> k \<noteq> ''STRIPE_SECRET_KEY'' \<longrightarrow> v \<noteq> [])) \<and>
     (\<exists>w1 a as. checkStripeCLI w = (Ok (), w1) \<and> answers w1 = a # as \<and>
        (toLowerCase a = ''l'' \<longrightarrow>
           map_of env ''TURSO_DATABASE_URL'' = Some ''file:dev.db'' \<and>
           (\<exists>key r. as = key # r \<and> map_of env ''STRIPE_SECRET_KEY'' = Some key)) \<and>
        (toLowerCase a \<noteq> ''l'' \<longrightarrow>
           (\<exists>n t key r v c out es.
              as = n # t # key # r \<and>
              execs w1 = ExecOk v # ExecOk c # ExecOk out # es \<and>
              map_of env ''TURSO_DATABASE_URL'' = Some (trim out) \<and>
              map_of env ''STRIPE_SECRET_KEY'' = Some key)))"
  proof (cases "toLowerCase a = ''l''")
    case True
    with d have "url db = ''file:dev.db''" and "answers w2 = as" by simp_all
    with k mu mk have "map_of env ''TURSO_DATABASE_URL'' = Some ''file:dev.db''"
      and "as = key # kr" and "map_of env ''STRIPE_SECRET_KEY'' = Some key"
      by simp_all
    then have "map_of env ''TURSO_DATABASE_URL'' = Some ''file:dev.db'' \<and>
           (\<exists>key r. as = key # r \<and> map_of env ''STRIPE_SECRET_KEY'' = Some key)"
      by blast
    with True have "(toLowerCase a = ''l'' \<longrightarrow>
           map_of env ''TURSO_DATABASE_URL'' = Some ''file:dev.db'' \<and>
           (\<exists>key r. as = key # r \<and> map_of env ''STRIPE_SECRET_KEY'' = Some key)) \<and>
        (toLowerCase a \<noteq> ''l'' \<longrightarrow>
           (\<exists>n t key r v c out es.
              as = n # t # key # r \<and>
              execs w1 = ExecOk v # ExecOk c # ExecOk out # es \<and>
              map_of env ''TURSO_DATABASE_URL'' = Some (trim out) \<and>
              map_of env ''STRIPE_SECRET_KEY'' = Some key))"
      by simp
    with vals 1 a show ?thesis by (intro conjI exI [of _ w1] exI [of _ a] exI [of _ as]) simp_all
  next
    case False
    with d obtain n t r v c out es where
      as: "as = n # t # r" and r: "answers w2 = r"
      and e: "execs w1 = ExecOk v # ExecOk c # ExecOk out # es"
      and db: "db = \<lparr>url = trim out, isRemote = True, authToken = Some t\<rparr>"
      by auto
    from as r k have 6: "as = n # t # key # kr" by simp
    from db mu have 7: "map_of env ''TURSO_DATABASE_URL'' = Some (trim out)" by simp
    from 6 e 7 mk have "\<exists>n t key r v c out es.
              as = n # t # key # r \<and>
              execs w1 = ExecOk v # ExecOk c # ExecOk out # es \<and>
              map_of env ''TURSO_DATABASE_URL'' = Some (trim out) \<and>
              map_of env ''STRIPE_SECRET_KEY'' = Some key"
      by blast
    with False have "(toLowerCase a = ''l'' \<longrightarrow>
           map_of env ''TURSO_DATABASE_URL'' = Some ''file:dev.db'' \<and>
           (\<exists>key r. as = key # r \<and> map_of env ''STRIPE_SECRET_KEY'' = Some key)) \<and>
        (toLowerCase a \<noteq> ''l'' \<longrightarrow>
           (\<exists>n t key r v c out es.
              as = n # t # key # r \<and>
              execs w1 = ExecOk v # ExecOk c # ExecOk out # es \<and>
              map_of env ''TURSO_DATABASE_URL'' = Some (trim out) \<and>
              map_of env ''STRIPE_SECRET_KEY'' = Some key))"
      by simp
    with vals 1 a show ?thesis by (intro conjI exI [of _ w1] exI [of _ a] exI [of _ as]) simp_all
  qed
qed

text \<open>
  A run where the hypotheses hold.
\<close>

theorem main_values_witness:
  "fst (main (scripted [''R'', ''mydb'', ''tok_1'', ''sk_test_123'']
          [ExecOk ''stripe version 1.21.8'', ExecOk ''[default]'', ExecOk ''turso version v0.96.0'',
           ExecOk ''Created database mydb'', ExecOk (''libsql://mydb-dev.turso.io'' @ [CHR 0x0A]),
           ExecOk (''whsec_abc123'' @ [CHR 0x0A])]))
     = Ok [(''TURSO_DATABASE_URL'', ''libsql://mydb-dev.turso.io''),
           (''STRIPE_SECRET_KEY'', ''sk_test_123''),
           (''STRIPE_WEBHOOK_SECRET'', ''whsec_abc123''),
           (''BASE_URL'', ''http://localhost:3000''),
           (''AUTH_SECRET'', toString_hex (map word_of_nat [0..<32])),
           (''TURSO_AUTH_TOKEN'', ''tok_1'')] \<and>
   toString_hex (map word_of_nat [0..<32]) \<noteq> [] \<and>
   CHR 0x0A \<notin> set (toString_hex (map word_of_nat [0..<32]))"
proof -
  let ?w = "scripted [''R'', ''mydb'', ''tok_1'', ''sk_test_123'']
          [ExecOk ''stripe version 1.21.8'', ExecOk ''[default]'', ExecOk ''turso version v0.96.0'',
           ExecOk ''Created database mydb'', ExecOk (''libsql://mydb-dev.turso.io'' @ [CHR 0x0A]),
           ExecOk (''whsec_abc123'' @ [CHR 0x0A])]"
  let ?env = "[(''TURSO_DATABASE_URL'', ''libsql://mydb-dev.turso.io''),
           (''STRIPE_SECRET_KEY'', ''sk_test_123''),
           (''STRIPE_WEBHOOK_SECRET'', ''whsec_abc123''),
           (''BASE_URL'', ''http://localhost:3000''),
           (''AUTH_SECRET'', toString_hex (map word_of_nat [0..<32])),
           (''TURSO_AUTH_TOKEN'', ''tok_1'')]"
  have m: "main ?w = (Ok ?env, snd (main ?w))"
    using remote_run by (cases "main ?w") simp
  have a: "\<forall>a \<in> set (answers ?w). CHR 0x0A \<notin> set a"
    by (simp add: scripted_def world0_def)
  have "\<forall>(k, v) \<in> set ?env.
        (k \<noteq> ''TURSO_DATABASE_URL'' \<longrightarrow> CHR 0x0A \<notin> set v) \<and>
        (k \<noteq> ''TURSO_DATABASE_URL'' \<and> k \<noteq> ''STRIPE_SECRET_KEY'' \<longrightarrow> v \<noteq> [])"
    using main_values [of ?w ?env "snd (main ?w)"] m a by blast
  then have "toString_hex (map word_of_nat [0..<32]) \<noteq> [] \<and>
       CHR 0x0A \<notin> set (toString_hex (map word_of_nat [0..<32]))"
    by simp
  with remote_run show ?thesis by blast
qed

text \<open>
  The claim as stated fails: the URL command prints a second line, which stays inside
  the trimmed URL, and the operator enters an empty secret key.
\<close>

theorem main_values_counterexample:
  "fst (main (scripted [''R'', ''mydb'', ''tok_1'', '''']
          [ExecOk ''stripe version 1.21.8'', ExecOk ''[default]'', ExecOk ''turso version v0.96.0'',
           ExecOk ''Created database mydb'',
           ExecOk (''libsql://mydb-dev.turso.io'' @ [CHR 0x0A] @ ''A new version of turso is available'' @ [CHR 0x0A]),
           ExecOk (''whsec_abc123'' @ [CHR 0x0A])]))
     = Ok [(''TURSO_DATABASE_URL'',
              ''libsql://mydb-dev.turso.io'' @ [CHR 0x0A] @ ''A new version of turso is available''),
           (''STRIPE_SECRET_KEY'', []),
           (''STRIPE_WEBHOOK_SECRET'', ''whsec_abc123''),
           (''BASE_URL'', ''http://localhost:3000''),
           (''AUTH_SECRET'', toString_hex (map word_of_nat [0..<32])),
           (''TURSO_AUTH_TOKEN'', ''tok_1'')]"
  by (simp add: run_defs)

subsection \<open>C10: the choice of the data store\<close>

text \<open>
  Claim C10. When the answer to the choice, lowercased, is \<^verbatim>\<open>l\<close>, the function returns
  the local store \<^verbatim>\<open>{url: "file:dev.db", isRemote: false}\<close> having only printed its step
  line and asked the one question. For every other answer it does not return the local
  store, and the next two things it does are the line and the command of the Turso CLI
  check.
\<close>

theorem getTursoDatabaseInfo_choice:
  "answers w = a # as \<longrightarrow>
     (toLowerCase a = ''l'' \<longrightarrow>
        getTursoDatabaseInfo w =
          (Ok \<lparr>url = ''file:dev.db'', isRemote = False, authToken = None\<rparr>,
           w\<lparr>answers := as,
             trace := trace w @
               [Log ''Step 2: Setting up Database'',
                Question ''Do you want to use a local SQLite file (L) or a remote Turso database (R)? (L/R): '']\<rparr>)) \<and>
     (toLowerCase a \<noteq> ''l'' \<longrightarrow>
        fst (getTursoDatabaseInfo w) \<noteq> Ok \<lparr>url = ''file:dev.db'', isRemote = False, authToken = None\<rparr> \<and>
        (\<exists>more. trace (snd (getTursoDatabaseInfo w)) =
           trace w @
             [Log ''Step 2: Setting up Database'',
              Question ''Do you want to use a local SQLite file (L) or a remote Turso database (R)? (L/R): '',
              Log ''Checking if Turso CLI is installed...'',
              Exec ''turso --version''] @ more))"
proof (intro impI conjI)
  assume a: "answers w = a # as" and l: "toLowerCase a = ''l''"
  then show "getTursoDatabaseInfo w =
          (Ok \<lparr>url = ''file:dev.db'', isRemote = False, authToken = None\<rparr>,
           w\<lparr>answers := as,
             trace := trace w @
               [Log ''Step 2: Setting up Database'',
                Question ''Do you want to use a local SQLite file (L) or a remote Turso database (R)? (L/R): '']\<rparr>)"
    by (simp add: getTursoDatabaseInfo_def io_defs)
next
  assume a: "answers w = a # as" and r: "toLowerCase a \<noteq> ''l''"
  show "fst (getTursoDatabaseInfo w) \<noteq> Ok \<lparr>url = ''file:dev.db'', isRemote = False, authToken = None\<rparr>"
  proof
    assume "fst (getTursoDatabaseInfo w) = Ok \<lparr>url = ''file:dev.db'', isRemote = False, authToken = None\<rparr>"
    then obtain w' where "getTursoDatabaseInfo w =
        (Ok \<lparr>url = ''file:dev.db'', isRemote = False, authToken = None\<rparr>, w')"
      by (cases "getTursoDatabaseInfo w") simp
    from getTursoDatabaseInfo_Ok [OF this] a r show False by auto
  qed
  show "\<exists>more. trace (snd (getTursoDatabaseInfo w)) =
           trace w @
             [Log ''Step 2: Setting up Database'',
              Question ''Do you want to use a local SQLite file (L) or a remote Turso database (R)? (L/R): '',
              Log ''Checking if Turso CLI is installed...'',
              Exec ''turso --version''] @ more"
    using a r by (rule getTursoDatabaseInfo_remote_first)
qed

text \<open>
  The answers \<^verbatim>\<open>L\<close>, \<^verbatim>\<open>local\<close> and the empty answer.
\<close>

theorem getTursoDatabaseInfo_choice_witness:
  "getTursoDatabaseInfo (scripted [''L''] []) =
     (Ok \<lparr>url = ''file:dev.db'', isRemote = False, authToken = None\<rparr>,
      world0\<lparr>trace :=
        [Log ''Step 2: Setting up Database'',
         Question ''Do you want to use a local SQLite file (L) or a remote Turso database (R)? (L/R): '']\<rparr>) \<and>
   fst (getTursoDatabaseInfo (scripted [''local''] []))
     \<noteq> Ok \<lparr>url = ''file:dev.db'', isRemote = False, authToken = None\<rparr> \<and>
   fst (getTursoDatabaseInfo (scripted [''''] []))
     \<noteq> Ok \<lparr>url = ''file:dev.db'', isRemote = False, authToken = None\<rparr>"
  using getTursoDatabaseInfo_choice [of "scripted [''L''] []" "''L''" "[]"]
    getTursoDatabaseInfo_choice [of "scripted [''local''] []" "''local''" "[]"]
    getTursoDatabaseInfo_choice [of "scripted [''''] []" "''''" "[]"]
  by (simp add: eval_defs)

end
